theory Spec2Isabelle
  imports Complex_Main "HOL-Library.AList"
begin

section \<open>Data model of the backtest engine (src/python/backtest/engine.py)\<close>

text \<open>
  Conventions of the embedding.  A Python \<open>float\<close> is a real number: rounding,
  infinities and NaN are not represented, so every statement below is about the exact
  arithmetic the code writes down.  A \<open>datetime\<close> is an integer.  A dataclass is a
  record with the fields of the class, in the order of the source; fields of different
  classes share names, as in Python, and are written qualified (\<open>Position.quantity\<close>).
  An exception is a value of type \<open>error\<close>; a method that mutates the engine takes the
  state and returns the new one.
\<close>

datatype error = ValueError string | TypeError | ZeroDivisionError

datatype Side = BUY | SELL

record Order =
  symbol :: string
  side :: Side
  quantity :: real
  order_type :: string
  limit_price :: "real option"
  timestamp :: "int option"
  filled :: bool
  fill_price :: "real option"
  fill_timestamp :: "int option"

record Position =
  symbol :: string
  quantity :: real
  avg_price :: real
  unrealized_pnl :: real
  realized_pnl :: real
  entry_time :: "int option"

record Trade =
  symbol :: string
  entry_time :: int
  exit_time :: int
  side :: Side
  quantity :: real
  entry_price :: real
  exit_price :: real
  pnl :: real
  return_pct :: real

record BacktestConfig =
  initial_capital :: real
  commission :: real
  slippage :: real
  margin_requirement :: real
  max_position_size :: real
  allow_shorting :: bool

text \<open>The dictionary appended to \<open>equity_curve\<close> once per bar.\<close>

record EquityPoint =
  timestamp :: int
  equity :: real
  cash :: real

text \<open>
  \<open>positions\<close> is a Python dict from symbol to Position.  It is an association list
  in insertion order, the order in which \<open>dict.values()\<close> iterates.
\<close>

record BacktestState =
  timestamp :: "int option"
  cash :: real
  positions :: "(string \<times> Position) list"
  orders :: "Order list"
  trades :: "Trade list"
  equity_curve :: "EquityPoint list"

text \<open>
  One row of the loaded frame, \<open>self.data.iloc[idx].to_dict()\<close>: the six columns that
  \<open>load_data\<close> requires and the optional \<open>symbol\<close> column.
\<close>

record Bar =
  timestamp :: int
  "open" :: real
  high :: real
  low :: real
  close :: real
  volume :: real
  symbol :: "string option"

text \<open>
  A pandas DataFrame as \<open>load_data\<close> sees it: the names of its columns and its rows.
\<close>

record DataFrame =
  columns :: "string list"
  rows :: "Bar list"

text \<open>The defaults of the dataclass \<open>BacktestConfig\<close>.\<close>

definition default_config :: BacktestConfig where
  "default_config =
     \<lparr>initial_capital = 100000, commission = 1 / 1000, slippage = 5 / 10000,
      margin_requirement = 1, max_position_size = 1 / 10, allow_shorting = True\<rparr>"

section \<open>Ledger operations\<close>

text \<open>\<open>BacktestEngine._reset\<close>.\<close>

definition reset :: "BacktestConfig \<Rightarrow> BacktestState" where
  "reset cfg =
     \<lparr>BacktestState.timestamp = None, cash = initial_capital cfg, positions = [],
      orders = [], trades = [], equity_curve = []\<rparr>"

text \<open>\<open>Position(symbol=symbol)\<close>: every other field takes its default.\<close>

definition new_position :: "string \<Rightarrow> Position" where
  "new_position s =
     \<lparr>Position.symbol = s, quantity = 0, avg_price = 0, unrealized_pnl = 0,
      realized_pnl = 0, entry_time = None\<rparr>"

text \<open>
  \<open>BacktestEngine.get_position\<close>: a lookup that inserts a fresh position for a symbol
  it has not seen.  It returns the position and the state with the possibly longer dict.
\<close>

definition get_position :: "string \<Rightarrow> BacktestState \<Rightarrow> Position \<times> BacktestState" where
  "get_position s st =
     (case map_of (positions st) s of
        Some p \<Rightarrow> (p, st)
      | None \<Rightarrow> (new_position s, st\<lparr>positions := positions st @ [(s, new_position s)]\<rparr>))"

text \<open>
  The source mutates the Position object that the dict holds.  In the model the changed
  position is written back under its key, which keeps its place in the dict.
\<close>

definition store_position :: "string \<Rightarrow> Position \<Rightarrow> BacktestState \<Rightarrow> BacktestState" where
  "store_position s p st = st\<lparr>positions := AList.update s p (positions st)\<rparr>"

text \<open>\<open>BacktestEngine.get_equity\<close>: the loop adds one term per position to the cash.\<close>

definition get_equity :: "BacktestState \<Rightarrow> real" where
  "get_equity st =
     fold (\<lambda>pos equity. equity + (Position.quantity pos * avg_price pos + unrealized_pnl pos))
       (map snd (positions st)) (BacktestState.cash st)"

text \<open>\<open>BacktestEngine._update_positions\<close>: positions of quantity 0 are skipped.\<close>

definition mark_position :: "Bar \<Rightarrow> Position \<Rightarrow> Position" where
  "mark_position bar pos =
     (if Position.quantity pos \<noteq> 0
      then pos\<lparr>unrealized_pnl := Position.quantity pos * (close bar - avg_price pos)\<rparr>
      else pos)"

definition update_positions :: "Bar \<Rightarrow> BacktestState \<Rightarrow> BacktestState" where
  "update_positions bar st =
     st\<lparr>positions := map (\<lambda>(s, pos). (s, mark_position bar pos)) (positions st)\<rparr>"

section \<open>The order fill simulator: \<open>BacktestEngine._execute_order\<close>\<close>

text \<open>
  Lines 166-174, the base price.  \<open>Inr None\<close> is the early \<open>return False\<close> of a limit
  order that the bar did not touch.  Every order type other than \<open>'MARKET'\<close> takes the
  limit branch; comparing a bar price with a limit price of \<open>None\<close> raises TypeError.
\<close>

definition base_price_of :: "Order \<Rightarrow> Bar \<Rightarrow> error + real option" where
  "base_price_of ord bar =
     (if order_type ord = ''MARKET'' then Inr (Some (close bar))
      else case limit_price ord of
        None \<Rightarrow> Inl TypeError
      | Some lp \<Rightarrow>
          if Order.side ord = BUY \<and> low bar > lp then Inr None
          else if Order.side ord = SELL \<and> high bar < lp then Inr None
          else Inr (Some lp))"

text \<open>Line 177.\<close>

definition slippage_factor :: "BacktestConfig \<Rightarrow> Order \<Rightarrow> real" where
  "slippage_factor cfg ord =
     (if Order.side ord = BUY then 1 + slippage cfg else 1 - slippage cfg)"

text \<open>
  Lines 199-236, the position update of a fill that passed the checks.  The division of
  line 229 raises ZeroDivisionError when its divisor is 0.
\<close>

definition update_position ::
  "BacktestState \<Rightarrow> Order \<Rightarrow> Bar \<Rightarrow> real \<Rightarrow> error + BacktestState" where
  "update_position st ord bar fp =
     (let (pos, st1) = get_position (Order.symbol ord) st;
          old_qty = Position.quantity pos;
          old_avg = avg_price pos
      in if Order.side ord = BUY then
           (let new_qty = old_qty + Order.quantity ord;
                pos1 = (if new_qty \<noteq> 0
                        then pos\<lparr>avg_price :=
                               (old_qty * old_avg + Order.quantity ord * fp) / new_qty\<rparr>
                        else pos);
                pos2 = (if old_qty = 0
                        then pos1\<lparr>Position.entry_time := Some (Bar.timestamp bar)\<rparr>
                        else pos1);
                pos3 = pos2\<lparr>Position.quantity := new_qty\<rparr>
            in Inr (store_position (Order.symbol ord) pos3 st1))
         else
           (let closing =
                  (if old_qty > 0 then
                     (let sell_qty = min (Order.quantity ord) old_qty;
                          gain = sell_qty * (fp - old_avg)
                      in if old_avg > 0 \<and> sell_qty * old_avg = 0 then Inl ZeroDivisionError
                         else Inr (pos\<lparr>realized_pnl := realized_pnl pos + gain\<rparr>,
                                   st1\<lparr>trades := trades st1 @
                                     [\<lparr>Trade.symbol = Order.symbol ord,
                                       entry_time = (case Position.entry_time pos of
                                                       Some t \<Rightarrow> t
                                                     | None \<Rightarrow> Bar.timestamp bar),
                                       exit_time = Bar.timestamp bar,
                                       side = BUY,
                                       quantity = sell_qty,
                                       entry_price = old_avg,
                                       exit_price = fp,
                                       pnl = gain,
                                       return_pct = (if old_avg > 0
                                                     then gain / (sell_qty * old_avg)
                                                     else 0)\<rparr>]\<rparr>))
                   else Inr (pos, st1))
            in case closing of
                 Inl e \<Rightarrow> Inl e
               | Inr (pos1, st2) \<Rightarrow>
                   (let pos2 = pos1\<lparr>Position.quantity := old_qty - Order.quantity ord\<rparr>;
                        pos3 = (if Position.quantity pos2 = 0
                                then pos2\<lparr>avg_price := 0, Position.entry_time := None\<rparr>
                                else pos2)
                    in Inr (store_position (Order.symbol ord) pos3 st2))))"

text \<open>Lines 238-241.\<close>

definition mark_filled :: "Order \<Rightarrow> Bar \<Rightarrow> real \<Rightarrow> Order" where
  "mark_filled ord bar fp =
     ord\<lparr>filled := True, fill_price := Some fp, fill_timestamp := Some (Bar.timestamp bar)\<rparr>"

text \<open>
  The whole method.  The result is the returned flag, the state and the order as the
  call leaves them, or the exception it raises.
\<close>

definition execute_order ::
  "BacktestConfig \<Rightarrow> BacktestState \<Rightarrow> Order \<Rightarrow> Bar \<Rightarrow> error + (bool \<times> BacktestState \<times> Order)"
  where
  "execute_order cfg st ord bar =
     (case base_price_of ord bar of
        Inl e \<Rightarrow> Inl e
      | Inr None \<Rightarrow> Inr (False, st, ord)
      | Inr (Some base_price) \<Rightarrow>
          (let fp = base_price * slippage_factor cfg ord;
               transaction_value = Order.quantity ord * fp;
               fee = transaction_value * commission cfg
           in if Order.side ord = BUY then
                (let required = transaction_value + fee
                 in if required > BacktestState.cash st then Inr (False, st, ord)
                    else
                      (case update_position
                              (st\<lparr>BacktestState.cash := BacktestState.cash st - required\<rparr>)
                              ord bar fp of
                         Inl e \<Rightarrow> Inl e
                       | Inr st' \<Rightarrow> Inr (True, st', mark_filled ord bar fp)))
              else
                (let (pos, st1) = get_position (Order.symbol ord) st
                 in if \<not> allow_shorting cfg \<and> Position.quantity pos < Order.quantity ord
                    then Inr (False, st1, ord)
                    else
                      (case update_position
                              (st1\<lparr>BacktestState.cash :=
                                     BacktestState.cash st1 + (transaction_value - fee)\<rparr>)
                              ord bar fp of
                         Inl e \<Rightarrow> Inl e
                       | Inr st' \<Rightarrow> Inr (True, st', mark_filled ord bar fp)))))"

section \<open>The engine and its bar loop\<close>

text \<open>
  The attributes of \<open>BacktestEngine\<close> that a strategy can read through the engine
  reference it is called with.
\<close>

record EngineView =
  config :: BacktestConfig
  data :: "Bar list option"
  state :: BacktestState

text \<open>
  The strategy callback \<open>strategy(engine, bar_idx, bar_data)\<close>.  It is a function of
  what it is given, and it answers with the orders to execute.  The strategies of the
  repository read positions with \<open>engine.get_position\<close>, which inserts a position for
  an unseen symbol, so the answer also lists the symbols it looked up.  A callback that
  returns \<open>None\<close> is one that returns no orders.
\<close>

type_synonym Strategy = "EngineView \<Rightarrow> nat \<Rightarrow> Bar \<Rightarrow> string list \<times> Order list"

record BacktestEngine = EngineView +
  strategy :: "Strategy option"

text \<open>\<open>BacktestEngine.__init__\<close>.\<close>

definition init_engine :: "BacktestConfig option \<Rightarrow> BacktestEngine" where
  "init_engine cfg =
     (let c = (case cfg of Some c \<Rightarrow> c | None \<Rightarrow> default_config)
      in \<lparr>config = c, data = None, state = reset c, strategy = None\<rparr>)"

text \<open>
  \<open>BacktestEngine.load_data\<close>.  The message of the ValueError shows the missing names
  as Python prints a list of strings.  \<open>sort_values\<close> is modelled as a stable sort;
  pandas does not fix the order of rows with equal timestamps.
\<close>

definition required :: "string list" where
  "required = [''timestamp'', ''open'', ''high'', ''low'', ''close'', ''volume'']"

fun join_comma :: "string list \<Rightarrow> string" where
  "join_comma [] = []"
| "join_comma [c] = c"
| "join_comma (c # cs) = c @ '', '' @ join_comma cs"

definition repr_list :: "string list \<Rightarrow> string" where
  "repr_list cs = ''['' @ join_comma (map (\<lambda>c. [CHR 0x27] @ c @ [CHR 0x27]) cs) @ '']''"

definition load_data :: "BacktestEngine \<Rightarrow> DataFrame \<Rightarrow> error + BacktestEngine" where
  "load_data e df =
     (let missing = filter (\<lambda>c. c \<notin> set (columns df)) required
      in if missing \<noteq> []
         then Inl (ValueError (''Missing required columns: '' @ repr_list missing))
         else Inr (e\<lparr>data := Some (sort_key Bar.timestamp (rows df))\<rparr>))"

text \<open>\<open>BacktestEngine.set_strategy\<close>.\<close>

definition set_strategy :: "BacktestEngine \<Rightarrow> Strategy \<Rightarrow> BacktestEngine" where
  "set_strategy e strategy_fn = e\<lparr>strategy := Some strategy_fn\<rparr>"

text \<open>
  Lines 279-283 of \<open>run\<close>: every order is stamped with the bar's timestamp and
  executed on the state its predecessor left; an order that fills is appended to the
  executed-order log.  An exception ends the loop.
\<close>

fun execute_orders ::
  "BacktestConfig \<Rightarrow> BacktestState \<Rightarrow> Order list \<Rightarrow> Bar \<Rightarrow> error + BacktestState" where
  "execute_orders cfg st [] bar = Inr st"
| "execute_orders cfg st (ord # ords) bar =
     (case execute_order cfg st (ord\<lparr>Order.timestamp := Some (Bar.timestamp bar)\<rparr>) bar of
        Inl e \<Rightarrow> Inl e
      | Inr (ok, st1, ord1) \<Rightarrow>
          execute_orders cfg (if ok then st1\<lparr>orders := orders st1 @ [ord1]\<rparr> else st1) ords bar)"

text \<open>The state after the strategy looked up the given symbols.\<close>

definition lookups :: "string list \<Rightarrow> BacktestState \<Rightarrow> BacktestState" where
  "lookups syms st = fold (\<lambda>s st'. snd (get_position s st')) syms st"

text \<open>The state right after the mark-to-market step of a bar (lines 270-273).\<close>

definition mark_bar :: "Bar \<Rightarrow> BacktestState \<Rightarrow> BacktestState" where
  "mark_bar bar st = update_positions bar (st\<lparr>BacktestState.timestamp := Some (Bar.timestamp bar)\<rparr>)"

text \<open>One iteration of the loop of \<open>run\<close> (lines 268-291).\<close>

definition process_bar :: "Strategy \<Rightarrow> EngineView \<Rightarrow> nat \<Rightarrow> Bar \<Rightarrow> error + EngineView" where
  "process_bar strategy_fn e idx bar =
     (let st1 = mark_bar bar (state e);
          (syms, ords) = strategy_fn (e\<lparr>state := st1\<rparr>) idx bar;
          st2 = lookups syms st1
      in case execute_orders (config e) st2 ords bar of
           Inl err \<Rightarrow> Inl err
         | Inr st3 \<Rightarrow>
             Inr (e\<lparr>state := st3\<lparr>equity_curve := equity_curve st3 @
                    [\<lparr>EquityPoint.timestamp = Bar.timestamp bar, equity = get_equity st3,
                      cash = BacktestState.cash st3\<rparr>]\<rparr>\<rparr>))"

fun run_bars :: "Strategy \<Rightarrow> EngineView \<Rightarrow> nat \<Rightarrow> Bar list \<Rightarrow> error + EngineView" where
  "run_bars strategy_fn e idx [] = Inr e"
| "run_bars strategy_fn e idx (bar # bars) =
     (case process_bar strategy_fn e idx bar of
        Inl err \<Rightarrow> Inl err
      | Inr e1 \<Rightarrow> run_bars strategy_fn e1 (Suc idx) bars)"

section \<open>The metrics of \<open>BacktestEngine._calculate_metrics\<close>\<close>

text \<open>
  numpy on a list of reals.  \<open>np.std\<close> is the population standard deviation.  A
  division by 0 inside numpy gives an infinity or NaN, which the reals do not have; the
  statements about metrics below are for equity curves without a zero.
\<close>

definition np_mean :: "real list \<Rightarrow> real" where
  "np_mean xs = sum_list xs / real (length xs)"

definition np_std :: "real list \<Rightarrow> real" where
  "np_std xs = sqrt (np_mean (map (\<lambda>x. \<bar>x - np_mean xs\<bar> ^ 2) xs))"

fun np_diff :: "real list \<Rightarrow> real list" where
  "np_diff (x # y # zs) = (y - x) # np_diff (y # zs)"
| "np_diff zs = []"

fun maximum_accumulate :: "real \<Rightarrow> real list \<Rightarrow> real list" where
  "maximum_accumulate m [] = []"
| "maximum_accumulate m (x # xs) = max m x # maximum_accumulate (max m x) xs"

text \<open>
  \<open>np.max\<close>.  The engine applies it to the drawdowns of at least two equity points; on
  an empty array numpy raises, a case that no caller reaches.
\<close>

fun np_max :: "real list \<Rightarrow> real" where
  "np_max [] = 0"
| "np_max (x # xs) = fold max xs x"

text \<open>\<open>returns = np.diff(equity) / equity[:-1]\<close>.\<close>

definition returns_of :: "real list \<Rightarrow> real list" where
  "returns_of eq = map (\<lambda>(d, e). d / e) (zip (np_diff eq) (butlast eq))"

text \<open>A float that may be \<open>float('inf')\<close>.\<close>

datatype xfloat = Finite real | Infinity

text \<open>The row of \<open>trades_df\<close> that \<open>run\<close> builds from a Trade: the side by its name.\<close>

fun Side_name :: "Side \<Rightarrow> string" where
  "Side_name BUY = ''BUY''"
| "Side_name SELL = ''SELL''"

record TradeRow =
  symbol :: string
  entry_time :: int
  exit_time :: int
  side :: string
  quantity :: real
  entry_price :: real
  exit_price :: real
  pnl :: real
  return_pct :: real

definition trade_row :: "Trade \<Rightarrow> TradeRow" where
  "trade_row t =
     \<lparr>TradeRow.symbol = Trade.symbol t, entry_time = Trade.entry_time t,
      exit_time = Trade.exit_time t, side = Side_name (Trade.side t),
      quantity = Trade.quantity t, entry_price = Trade.entry_price t,
      exit_price = Trade.exit_price t, pnl = Trade.pnl t, return_pct = Trade.return_pct t\<rparr>"

record Metrics =
  total_return :: real
  annualized_return :: real
  volatility :: real
  sharpe_ratio :: real
  max_drawdown :: real
  num_trades :: nat
  win_rate :: real
  avg_win :: real
  avg_loss :: real
  profit_factor :: xfloat
  final_equity :: real
  initial_capital :: real

text \<open>
  \<open>BacktestEngine._calculate_metrics\<close> on the equity column and the trade rows.
  \<open>None\<close> is the empty dict returned for fewer than two equity points.
\<close>

definition calculate_metrics :: "BacktestConfig \<Rightarrow> real list \<Rightarrow> TradeRow list \<Rightarrow> Metrics option"
  where
  "calculate_metrics cfg eq trades_df =
     (if length eq < 2 then None
      else
        (let returns = returns_of eq;
             total_ret = last eq / hd eq - 1;
             n_periods = length returns;
             annualized = (if n_periods > 0
                           then (1 + total_ret) powr (252 / real n_periods) - 1 else 0);
             vol = (if length returns > 0 then np_std returns * sqrt 252 else 0);
             sharpe = (if vol > 0 then annualized / vol else 0);
             peak = maximum_accumulate (hd eq) eq;
             drawdown = map (\<lambda>(p, e). (p - e) / p) (zip peak eq);
             pnls = map TradeRow.pnl trades_df;
             wins = filter (\<lambda>x. x > 0) pnls;
             losses = filter (\<lambda>x. x < 0) pnls
         in Some
           \<lparr>total_return = total_ret,
            annualized_return = annualized,
            volatility = vol,
            sharpe_ratio = sharpe,
            max_drawdown = np_max drawdown,
            num_trades = length trades_df,
            win_rate = (if length trades_df > 0
                        then real (length wins) / real (length trades_df) else 0),
            avg_win = (if length trades_df > 0 \<and> length wins > 0 then np_mean wins else 0),
            avg_loss = (if length trades_df > 0 \<and> length losses > 0 then np_mean losses else 0),
            profit_factor = (if length trades_df > 0
                             then (if sum_list losses \<noteq> 0
                                   then Finite \<bar>sum_list wins / sum_list losses\<bar>
                                   else Infinity)
                             else Finite 0),
            final_equity = last eq,
            initial_capital = BacktestConfig.initial_capital cfg\<rparr>))"

text \<open>The dictionary that \<open>run\<close> returns.\<close>

record BacktestResult =
  equity_curve :: "EquityPoint list"
  trades :: "TradeRow list"
  metrics :: "Metrics option"
  final_equity :: real

text \<open>Lines 293-318 of \<open>run\<close>.\<close>

definition compile_results :: "BacktestConfig \<Rightarrow> BacktestState \<Rightarrow> BacktestResult" where
  "compile_results cfg st =
     (let equity_df = BacktestState.equity_curve st;
          trades_df = map trade_row (BacktestState.trades st)
      in \<lparr>BacktestResult.equity_curve = equity_df,
          trades = trades_df,
          metrics = calculate_metrics cfg (map equity equity_df) trades_df,
          final_equity = (if length equity_df > 0 then equity (last equity_df)
                          else BacktestConfig.initial_capital cfg)\<rparr>)"

text \<open>
  \<open>BacktestEngine.run\<close>: the two checks, the reset, the loop over the bars and the
  results.  It returns the results and the engine as the call leaves it.
\<close>

definition run :: "BacktestEngine \<Rightarrow> error + (BacktestResult \<times> BacktestEngine)" where
  "run e =
     (case data e of
        None \<Rightarrow> Inl (ValueError ''No data loaded. Call load_data() first.'')
      | Some bars \<Rightarrow>
          (case strategy e of
             None \<Rightarrow> Inl (ValueError ''No strategy set. Call set_strategy() first.'')
           | Some strategy_fn \<Rightarrow>
               (case run_bars strategy_fn
                       \<lparr>config = config e, data = data e, state = reset (config e)\<rparr> 0 bars of
                  Inl err \<Rightarrow> Inl err
                | Inr e1 \<Rightarrow>
                    Inr (compile_results (config e) (state e1), e\<lparr>state := state e1\<rparr>))))"

section \<open>The Sharpe ratio of \<open>BacktestMetrics.from_equity_curve\<close> (src/python/backtest/metrics.py)\<close>

text \<open>
  The fields \<open>volatility\<close> (line 85) and \<open>sharpe_ratio\<close> (lines 107-112) of the report
  that \<open>from_equity_curve\<close> returns, with every statement of the method that they
  depend on: the early return of the default report for fewer than two points, and the
  division by \<open>periods_per_year\<close> of line 78, which raises for 0.
\<close>

definition metrics_volatility :: "real list \<Rightarrow> int \<Rightarrow> error + real" where
  "metrics_volatility eq periods_per_year =
     (if length eq < 2 then Inr 0
      else if periods_per_year = 0 then Inl ZeroDivisionError
      else Inr (np_std (returns_of eq) * sqrt (real_of_int periods_per_year)))"

definition metrics_sharpe_ratio :: "real list \<Rightarrow> real \<Rightarrow> int \<Rightarrow> error + real" where
  "metrics_sharpe_ratio eq risk_free_rate periods_per_year =
     (if length eq < 2 then Inr 0
      else if periods_per_year = 0 then Inl ZeroDivisionError
      else
        (let returns = returns_of eq;
             vol = np_std returns * sqrt (real_of_int periods_per_year);
             rf_per_period = risk_free_rate / real_of_int periods_per_year;
             excess_returns = map (\<lambda>r. r - rf_per_period) returns
         in Inr (if vol > 0
                 then (np_mean excess_returns * real_of_int periods_per_year) / vol
                 else 0)))"

section \<open>Sequences of fills, and the quantities the specification names\<close>

text \<open>
  \<open>fills cfg st fs st'\<close>: calling \<open>_execute_order\<close> on some orders and bars, one after the
  other from the state \<open>st\<close>, returned True every time and left the state \<open>st'\<close>;
  \<open>fs\<close> are the orders as the calls left them, each with its fill price.
\<close>

inductive fills :: "BacktestConfig \<Rightarrow> BacktestState \<Rightarrow> Order list \<Rightarrow> BacktestState \<Rightarrow> bool"
  for cfg :: BacktestConfig where
  fills_Nil: "fills cfg st [] st"
| fills_Cons: "execute_order cfg st ord bar = Inr (True, st1, ord1) \<Longrightarrow> fills cfg st1 fs st2
     \<Longrightarrow> fills cfg st (ord1 # fs) st2"

text \<open>
  The transaction value of a filled order, quantity times fill price, its commission, and
  from them the cost of a buy and the proceeds of a sell (specification, section 4.2).
\<close>

definition transaction_value :: "Order \<Rightarrow> real" where
  "transaction_value ord =
     (case fill_price ord of Some fp \<Rightarrow> Order.quantity ord * fp | None \<Rightarrow> 0)"

definition commission_of :: "BacktestConfig \<Rightarrow> Order \<Rightarrow> real" where
  "commission_of cfg ord = transaction_value ord * commission cfg"

definition buy_costs :: "BacktestConfig \<Rightarrow> Order list \<Rightarrow> real" where
  "buy_costs cfg fs =
     (\<Sum>ord \<leftarrow> filter (\<lambda>ord. Order.side ord = BUY) fs.
        transaction_value ord + commission_of cfg ord)"

definition sell_proceeds :: "BacktestConfig \<Rightarrow> Order list \<Rightarrow> real" where
  "sell_proceeds cfg fs =
     (\<Sum>ord \<leftarrow> filter (\<lambda>ord. Order.side ord = SELL) fs.
        transaction_value ord - commission_of cfg ord)"

text \<open>The position of a symbol as \<open>get_position\<close> reads it.\<close>

definition position_of :: "BacktestState \<Rightarrow> string \<Rightarrow> Position" where
  "position_of st s = fst (get_position s st)"

text \<open>
  The quantity-weighted mean of the fill prices of filled orders (specification,
  section 8, average-cost invariant).
\<close>

definition weighted_mean_price :: "Order list \<Rightarrow> real" where
  "weighted_mean_price fs =
     (\<Sum>ord \<leftarrow> fs. transaction_value ord) / (\<Sum>ord \<leftarrow> fs. Order.quantity ord)"

section \<open>Scenarios\<close>

text \<open>
  \<open>Order(symbol, side, quantity)\<close> and \<open>Order(symbol, side, quantity, 'LIMIT', price)\<close>,
  the other fields at their defaults; a bar that trades at one price; the configuration
  of the specification's scenarios, without commission and slippage.
\<close>

definition market_order :: "string \<Rightarrow> Side \<Rightarrow> real \<Rightarrow> Order" where
  "market_order s sd q =
     \<lparr>Order.symbol = s, side = sd, quantity = q, order_type = ''MARKET'', limit_price = None,
      timestamp = None, filled = False, fill_price = None, fill_timestamp = None\<rparr>"

definition limit_order :: "string \<Rightarrow> Side \<Rightarrow> real \<Rightarrow> real \<Rightarrow> Order" where
  "limit_order s sd q lp = (market_order s sd q)\<lparr>order_type := ''LIMIT'', limit_price := Some lp\<rparr>"

definition bar_at :: "int \<Rightarrow> real \<Rightarrow> Bar" where
  "bar_at t p =
     \<lparr>Bar.timestamp = t, open = p, high = p, low = p, close = p, volume = 1000,
      symbol = Some ''AAPL''\<rparr>"

definition frictionless :: BacktestConfig where
  "frictionless = default_config\<lparr>commission := 0, slippage := 0\<rparr>"

text \<open>
  A buy of 100 shares on a bar that closes at 50 and a sell of 40 on a bar that closes
  at 60, under the default configuration (commission 0.1 percent, slippage 0.05 percent).
\<close>

definition filled_buy :: Order where
  "filled_buy = mark_filled (market_order ''AAPL'' BUY 100) (bar_at 1 50) (2001 / 40)"

definition filled_sell :: Order where
  "filled_sell = mark_filled (market_order ''AAPL'' SELL 40) (bar_at 2 60) (5997 / 100)"

definition after_buy :: BacktestState where
  "after_buy =
     \<lparr>BacktestState.timestamp = None, cash = 37996999 / 400,
      positions =
        [(''AAPL'',
          \<lparr>Position.symbol = ''AAPL'', quantity = 100, avg_price = 2001 / 40,
           unrealized_pnl = 0, realized_pnl = 0, entry_time = Some 1\<rparr>)],
      orders = [], trades = [], equity_curve = []\<rparr>"

definition after_sell :: BacktestState where
  "after_sell =
     \<lparr>BacktestState.timestamp = None, cash = 973888987 / 10000,
      positions =
        [(''AAPL'',
          \<lparr>Position.symbol = ''AAPL'', quantity = 60, avg_price = 2001 / 40,
           unrealized_pnl = 0, realized_pnl = 1989 / 5, entry_time = Some 1\<rparr>)],
      orders = [],
      trades =
        [\<lparr>Trade.symbol = ''AAPL'', entry_time = 1, exit_time = 2, side = BUY, quantity = 40,
          entry_price = 2001 / 40, exit_price = 5997 / 100, pnl = 1989 / 5,
          return_pct = 663 / 3335\<rparr>],
      equity_curve = []\<rparr>"

text \<open>
  A ledger that holds one position, in AAPL, with no unrealized profit, and the trades
  recorded so far.
\<close>

definition aapl :: "real \<Rightarrow> real \<Rightarrow> real \<Rightarrow> int option \<Rightarrow> Position" where
  "aapl qty avg realized entry =
     \<lparr>Position.symbol = ''AAPL'', quantity = qty, avg_price = avg, unrealized_pnl = 0,
      realized_pnl = realized, entry_time = entry\<rparr>"

definition ledger :: "real \<Rightarrow> Position \<Rightarrow> Trade list \<Rightarrow> BacktestState" where
  "ledger c pos ts =
     \<lparr>BacktestState.timestamp = None, cash = c, positions = [(''AAPL'', pos)], orders = [],
      trades = ts, equity_curve = []\<rparr>"

text \<open>A second buy, of 50 shares on a bar that closes at 80, after the buy of 100.\<close>

definition filled_buy_more :: Order where
  "filled_buy_more = mark_filled (market_order ''AAPL'' BUY 50) (bar_at 2 80) (2001 / 25)"

definition after_buy_more :: BacktestState where
  "after_buy_more = ledger (181972991 / 2000) (aapl 150 (6003 / 100) 0 (Some 1)) []"

text \<open>The Trade that a sell records when it reduces a long position (lines 215-230).\<close>

definition closing_trade :: "Position \<Rightarrow> Order \<Rightarrow> Bar \<Rightarrow> real \<Rightarrow> Trade" where
  "closing_trade pos ord bar fp =
     \<lparr>Trade.symbol = Order.symbol ord,
      entry_time = (case Position.entry_time pos of Some t \<Rightarrow> t | None \<Rightarrow> Bar.timestamp bar),
      exit_time = Bar.timestamp bar,
      side = BUY,
      quantity = min (Order.quantity ord) (Position.quantity pos),
      entry_price = avg_price pos,
      exit_price = fp,
      pnl = min (Order.quantity ord) (Position.quantity pos) * (fp - avg_price pos),
      return_pct =
        (if avg_price pos > 0
         then min (Order.quantity ord) (Position.quantity pos) * (fp - avg_price pos)
              / (min (Order.quantity ord) (Position.quantity pos) * avg_price pos)
         else 0)\<rparr>"

text \<open>
  A reversal without commission and slippage.  Ten shares are bought at 100 and fifteen
  are sold at 100, which closes the long position and leaves five shares short at an
  average price of 100.
\<close>

definition closed_long :: Trade where
  "closed_long =
     \<lparr>Trade.symbol = ''AAPL'', entry_time = 1, exit_time = 2, side = BUY, quantity = 10,
      entry_price = 100, exit_price = 100, pnl = 0, return_pct = 0\<rparr>"

definition long_ten :: BacktestState where
  "long_ten = ledger 99000 (aapl 10 100 0 (Some 1)) []"

definition short_five :: BacktestState where
  "short_five = ledger 100500 (aapl (- 5) 100 0 (Some 1)) [closed_long]"

definition bought_ten :: Order where
  "bought_ten = mark_filled (market_order ''AAPL'' BUY 10) (bar_at 1 100) 100"

definition sold_fifteen :: Order where
  "sold_fifteen = mark_filled (market_order ''AAPL'' SELL 15) (bar_at 2 100) 100"

text \<open>Then five shares are bought at 100, which covers the short position exactly.\<close>

definition bought_five :: Order where
  "bought_five = mark_filled (market_order ''AAPL'' BUY 5) (bar_at 3 100) 100"

definition flat_after_cover :: BacktestState where
  "flat_after_cover = ledger 100000 (aapl 0 100 0 (Some 1)) [closed_long]"

text \<open>
  Or else six shares are bought at 50, which leaves one share long at an average price of
  (-5 * 100 + 6 * 50) / 1 = -200, and that share is sold at 50.
\<close>

definition bought_six :: Order where
  "bought_six = mark_filled (market_order ''AAPL'' BUY 6) (bar_at 3 50) 50"

definition long_one :: BacktestState where
  "long_one = ledger 100200 (aapl 1 (- 200) 0 (Some 1)) [closed_long]"

definition sold_one :: Order where
  "sold_one = mark_filled (market_order ''AAPL'' SELL 1) (bar_at 4 50) 50"

definition closed_one :: Trade where
  "closed_one =
     \<lparr>Trade.symbol = ''AAPL'', entry_time = 1, exit_time = 4, side = BUY, quantity = 1,
      entry_price = - 200, exit_price = 50, pnl = 250, return_pct = 0\<rparr>"

definition flat_after_sale :: BacktestState where
  "flat_after_sale = ledger 100250 (aapl 0 0 250 None) [closed_long, closed_one]"

text \<open>A sell of five shares from the fresh ledger, which opens a short position.\<close>

definition sold_short :: Order where
  "sold_short = mark_filled (market_order ''AAPL'' SELL 5) (bar_at 1 100) 100"

definition short_opened :: BacktestState where
  "short_opened = ledger 100500 (aapl (- 5) 0 0 None) []"

text \<open>
  An engine with its data loaded and its strategy set, and two strategies.  The first
  buys ten shares and sells them again on every bar.  The second buys 100 shares on the
  first bar, sells them on the second bar and then stays out of the market.  Both look
  up their position first, as the strategies of the repository do.
\<close>

definition engine_of :: "BacktestConfig \<Rightarrow> Bar list \<Rightarrow> Strategy \<Rightarrow> BacktestEngine" where
  "engine_of cfg bars f =
     \<lparr>config = cfg, data = Some bars, state = reset cfg, strategy = Some f\<rparr>"

definition in_and_out :: Strategy where
  "in_and_out e idx bar =
     ([''AAPL''], [market_order ''AAPL'' BUY 10, market_order ''AAPL'' SELL 10])"

definition round_trip :: Strategy where
  "round_trip e idx bar =
     (if idx = 0 then ([''AAPL''], [market_order ''AAPL'' BUY 100])
      else if idx = 1 then ([''AAPL''], [market_order ''AAPL'' SELL 100])
      else ([''AAPL''], []))"

text \<open>The run of the first strategy over one bar at 100, without commission and slippage.\<close>

definition day_trade :: Trade where
  "day_trade =
     \<lparr>Trade.symbol = ''AAPL'', entry_time = 1, exit_time = 1, side = BUY, quantity = 10,
      entry_price = 100, exit_price = 100, pnl = 0, return_pct = 0\<rparr>"

definition day_state :: BacktestState where
  "day_state =
     \<lparr>BacktestState.timestamp = Some 1, cash = 100000,
      positions = [(''AAPL'', aapl 0 0 0 None)],
      orders =
        [(mark_filled (market_order ''AAPL'' BUY 10) (bar_at 1 100) 100)
           \<lparr>Order.timestamp := Some 1\<rparr>,
         (mark_filled (market_order ''AAPL'' SELL 10) (bar_at 1 100) 100)
           \<lparr>Order.timestamp := Some 1\<rparr>],
      trades = [day_trade],
      equity_curve = [\<lparr>EquityPoint.timestamp = 1, equity = 100000, cash = 100000\<rparr>]\<rparr>"

definition day_result :: BacktestResult where
  "day_result =
     \<lparr>BacktestResult.equity_curve =
        [\<lparr>EquityPoint.timestamp = 1, equity = 100000, cash = 100000\<rparr>],
      trades = [trade_row day_trade], metrics = None, final_equity = 100000\<rparr>"

text \<open>
  The second strategy over bars that close at 50, 60 and 60: the state after the first
  two bars.  The 100 shares were bought at 50, marked at 60 and sold at 60.
\<close>

definition three_bars :: "Bar list" where
  "three_bars = [bar_at 1 50, bar_at 2 60, bar_at 3 60]"

definition closed_out :: BacktestState where
  "closed_out =
     \<lparr>BacktestState.timestamp = Some 2, cash = 101000,
      positions =
        [(''AAPL'',
          \<lparr>Position.symbol = ''AAPL'', quantity = 0, avg_price = 0, unrealized_pnl = 1000,
           realized_pnl = 1000, entry_time = None\<rparr>)],
      orders =
        [(mark_filled (market_order ''AAPL'' BUY 100) (bar_at 1 50) 50)
           \<lparr>Order.timestamp := Some 1\<rparr>,
         (mark_filled (market_order ''AAPL'' SELL 100) (bar_at 2 60) 60)
           \<lparr>Order.timestamp := Some 2\<rparr>],
      trades =
        [\<lparr>Trade.symbol = ''AAPL'', entry_time = 1, exit_time = 2, side = BUY, quantity = 100,
          entry_price = 50, exit_price = 60, pnl = 1000, return_pct = 1 / 5\<rparr>],
      equity_curve =
        [\<lparr>EquityPoint.timestamp = 1, equity = 100000, cash = 95000\<rparr>,
         \<lparr>EquityPoint.timestamp = 2, equity = 102000, cash = 101000\<rparr>]\<rparr>"

text \<open>The trade log holds trades of side BUY only.\<close>

definition all_buy :: "BacktestState \<Rightarrow> bool" where
  "all_buy st \<longleftrightarrow> (\<forall>t\<in>set (BacktestState.trades st). Trade.side t = BUY)"

text \<open>
  A bar that trades between 50 and 60, and the ledger after a limit buy of ten shares at
  55 fills on it under the default configuration.
\<close>

definition wide_bar :: Bar where
  "wide_bar = (bar_at 1 55)\<lparr>high := 60, low := 50\<rparr>"

definition after_limit_buy :: BacktestState where
  "after_limit_buy = ledger (3977966989 / 40000) (aapl 10 (22011 / 400) 0 (Some 1)) []"

text \<open>
  A frame with the six price and volume columns and no symbol column, and a frame with a
  symbol column and no close column.
\<close>

definition ohlcv_frame :: DataFrame where
  "ohlcv_frame =
     \<lparr>columns = [''timestamp'', ''open'', ''high'', ''low'', ''close'', ''volume''],
      rows = [(bar_at 1 100)\<lparr>Bar.symbol := None\<rparr>]\<rparr>"

definition no_close_frame :: DataFrame where
  "no_close_frame =
     \<lparr>columns = [''timestamp'', ''open'', ''high'', ''low'', ''volume'', ''symbol''],
      rows = [bar_at 1 100]\<rparr>"

text \<open>
  An account of 100 that buys one share on the first bar and holds it, over bars that
  close at 100, 200 and 100, without commission and slippage: the state after the run,
  and the report and the results that \<open>run\<close> returns.
\<close>

definition buy_once :: Strategy where
  "buy_once e idx bar =
     (if idx = 0 then ([''AAPL''], [market_order ''AAPL'' BUY 1]) else ([''AAPL''], []))"

definition small_account :: BacktestConfig where
  "small_account = frictionless\<lparr>BacktestConfig.initial_capital := 100\<rparr>"

definition swing_bars :: "Bar list" where
  "swing_bars = [bar_at 1 100, bar_at 2 200, bar_at 3 100]"

definition held :: BacktestState where
  "held =
     \<lparr>BacktestState.timestamp = Some 3, cash = 0,
      positions = [(''AAPL'', aapl 1 100 0 (Some 1))],
      orders =
        [(mark_filled (market_order ''AAPL'' BUY 1) (bar_at 1 100) 100)
           \<lparr>Order.timestamp := Some 1\<rparr>],
      trades = [],
      equity_curve =
        [\<lparr>EquityPoint.timestamp = 1, equity = 100, cash = 0\<rparr>,
         \<lparr>EquityPoint.timestamp = 2, equity = 200, cash = 0\<rparr>,
         \<lparr>EquityPoint.timestamp = 3, equity = 100, cash = 0\<rparr>]\<rparr>"

definition swing_report :: Metrics where
  "swing_report =
     \<lparr>total_return = 0, annualized_return = 0, volatility = 3 / 4 * sqrt 252,
      sharpe_ratio = 0, max_drawdown = 1 / 2, num_trades = 0, win_rate = 0, avg_win = 0,
      avg_loss = 0, profit_factor = Finite 0, final_equity = 100, initial_capital = 100\<rparr>"

definition swing_result :: BacktestResult where
  "swing_result =
     \<lparr>BacktestResult.equity_curve = BacktestState.equity_curve held, trades = [],
      metrics = Some swing_report, final_equity = 100\<rparr>"

section \<open>Evaluation and frame lemmas\<close>

lemmas scenario_defs =
  default_config_def frictionless_def reset_def market_order_def limit_order_def bar_at_def

lemmas engine_defs =
  execute_order_def base_price_of_def slippage_factor_def update_position_def
  get_position_def store_position_def new_position_def mark_filled_def Let_def

lemma get_position_cash:
  "BacktestState.cash (snd (get_position s st)) = BacktestState.cash st"
  by (simp add: get_position_def split: option.splits)

lemma update_position_cash:
  "update_position st ord bar fp = Inr st' \<Longrightarrow> BacktestState.cash st' = BacktestState.cash st"
  using get_position_cash[of "Order.symbol ord" st]
  by (auto simp: update_position_def Let_def store_position_def
      split: prod.splits if_splits sum.splits)

lemma execute_order_cash:
  assumes "execute_order cfg st ord bar = Inr (True, st', ord')"
  shows "\<exists>base. base_price_of ord bar = Inr (Some base)
           \<and> fill_price ord' = Some (base * slippage_factor cfg ord)
           \<and> Order.quantity ord' = Order.quantity ord
           \<and> Order.side ord' = Order.side ord
           \<and> BacktestState.cash st' =
               (if Order.side ord = BUY
                then BacktestState.cash st - (transaction_value ord' + commission_of cfg ord')
                else BacktestState.cash st + (transaction_value ord' - commission_of cfg ord'))"
  using assms get_position_cash[of "Order.symbol ord" st]
  by (auto simp: execute_order_def Let_def mark_filled_def transaction_value_def
        commission_of_def
      split: sum.splits option.splits if_splits prod.splits dest!: update_position_cash)

lemma fills_cash:
  "fills cfg st fs st' \<Longrightarrow>
     BacktestState.cash st' = BacktestState.cash st - buy_costs cfg fs + sell_proceeds cfg fs"
proof (induction rule: fills.induct)
  case (fills_Nil st)
  show ?case by (simp add: buy_costs_def sell_proceeds_def)
next
  case (fills_Cons st ord bar st1 ord1 fs st2)
  from execute_order_cash[OF fills_Cons.hyps(1)]
  have side: "Order.side ord1 = Order.side ord"
    and c: "BacktestState.cash st1 =
     (if Order.side ord = BUY
      then BacktestState.cash st - (transaction_value ord1 + commission_of cfg ord1)
      else BacktestState.cash st + (transaction_value ord1 - commission_of cfg ord1))"
    by auto
  show ?case
  proof (cases "Order.side ord")
    case BUY
    with side c fills_Cons.IH show ?thesis by (simp add: buy_costs_def sell_proceeds_def)
  next
    case SELL
    with side c fills_Cons.IH show ?thesis by (simp add: buy_costs_def sell_proceeds_def)
  qed
qed

lemma buy_step:
  "execute_order default_config (reset default_config) (market_order ''AAPL'' BUY 100)
     (bar_at 1 50) = Inr (True, after_buy, filled_buy)"
  by (simp add: engine_defs scenario_defs after_buy_def filled_buy_def)

lemma sell_step:
  "execute_order default_config after_buy (market_order ''AAPL'' SELL 40) (bar_at 2 60)
     = Inr (True, after_sell, filled_sell)"
  by (simp add: engine_defs scenario_defs after_buy_def after_sell_def filled_sell_def)

lemma buy_sell_fills:
  "fills default_config (reset default_config) [filled_buy, filled_sell] after_sell"
  by (rule fills_Cons[OF buy_step fills_Cons[OF sell_step fills_Nil]])

section \<open>Cash conservation\<close>

text \<open>
  Claim C2.  A call of \<open>_execute_order\<close> that returns True fills at the base price times
  the slippage factor and changes the cash by exactly minus (transaction value plus
  commission) for a buy and by plus (transaction value minus commission) for a sell,
  where the transaction value is quantity times fill price and the commission is the
  transaction value times the commission rate.  So over any sequence of successful
  fills the cash afterwards is the cash before, minus the costs of the buys, plus the
  proceeds of the sells.
\<close>

theorem cash_conservation:
  "(execute_order cfg st ord bar = Inr (True, st1, ord1) \<longrightarrow>
      (\<exists>base. base_price_of ord bar = Inr (Some base)
         \<and> fill_price ord1 = Some (base * slippage_factor cfg ord)
         \<and> transaction_value ord1 = Order.quantity ord * (base * slippage_factor cfg ord)
         \<and> commission_of cfg ord1 = transaction_value ord1 * commission cfg)
      \<and> BacktestState.cash st1 =
          (if Order.side ord = BUY
           then BacktestState.cash st - (transaction_value ord1 + commission_of cfg ord1)
           else BacktestState.cash st + (transaction_value ord1 - commission_of cfg ord1)))
   \<and> (fills cfg st fs st2 \<longrightarrow>
        BacktestState.cash st2 =
          BacktestState.cash st - buy_costs cfg fs + sell_proceeds cfg fs)"
proof (intro conjI impI)
  assume ex: "execute_order cfg st ord bar = Inr (True, st1, ord1)"
  from execute_order_cash[OF ex] obtain base where
    b: "base_price_of ord bar = Inr (Some base)"
      "fill_price ord1 = Some (base * slippage_factor cfg ord)"
      "Order.quantity ord1 = Order.quantity ord"
    and c: "BacktestState.cash st1 =
          (if Order.side ord = BUY
           then BacktestState.cash st - (transaction_value ord1 + commission_of cfg ord1)
           else BacktestState.cash st + (transaction_value ord1 - commission_of cfg ord1))"
    by blast
  from b show "\<exists>base. base_price_of ord bar = Inr (Some base)
         \<and> fill_price ord1 = Some (base * slippage_factor cfg ord)
         \<and> transaction_value ord1 = Order.quantity ord * (base * slippage_factor cfg ord)
         \<and> commission_of cfg ord1 = transaction_value ord1 * commission cfg"
    by (simp add: transaction_value_def commission_of_def)
  from c show "BacktestState.cash st1 =
          (if Order.side ord = BUY
           then BacktestState.cash st - (transaction_value ord1 + commission_of cfg ord1)
           else BacktestState.cash st + (transaction_value ord1 - commission_of cfg ord1))" .
next
  assume "fills cfg st fs st2"
  then show "BacktestState.cash st2 =
          BacktestState.cash st - buy_costs cfg fs + sell_proceeds cfg fs"
    by (rule fills_cash)
qed

theorem cash_conservation_witness:
  "execute_order default_config (reset default_config) (market_order ''AAPL'' BUY 100)
     (bar_at 1 50) = Inr (True, after_buy, filled_buy)
   \<and> fills default_config (reset default_config) [filled_buy, filled_sell] after_sell
   \<and> BacktestState.cash after_buy = 100000 - (10005 / 2 + 10005 / 2000)
   \<and> buy_costs default_config [filled_buy, filled_sell] = 10005 / 2 + 10005 / 2000
   \<and> sell_proceeds default_config [filled_buy, filled_sell] = 11994 / 5 - 11994 / 5000
   \<and> BacktestState.cash after_sell
       = 100000 - (10005 / 2 + 10005 / 2000) + (11994 / 5 - 11994 / 5000)"
  using cash_conservation[of default_config "reset default_config"
      "market_order ''AAPL'' BUY 100" "bar_at 1 50" after_buy filled_buy
      "[filled_buy, filled_sell]" after_sell]
    buy_step buy_sell_fills
  by (simp add: buy_costs_def sell_proceeds_def transaction_value_def commission_of_def
      filled_buy_def filled_sell_def mark_filled_def scenario_defs)

section \<open>Average cost of a position\<close>

lemma position_of_alt:
  "position_of st s =
     (case map_of (positions st) s of Some p \<Rightarrow> p | None \<Rightarrow> new_position s)"
  by (simp add: position_of_def get_position_def split: option.splits)

lemma positions_get_position:
  "map_of (positions (snd (get_position s' st))) s =
     (if s = s' \<and> map_of (positions st) s = None then Some (new_position s)
      else map_of (positions st) s)"
  by (auto simp: get_position_def map_add_def split: option.splits)

lemma position_of_store:
  "position_of (store_position s p st) s = p"
  by (simp add: position_of_alt store_position_def update_conv')

lemma position_of_store_other:
  "s' \<noteq> s \<Longrightarrow> position_of (store_position s p st) s' = position_of st s'"
  by (simp add: position_of_alt store_position_def update_conv')

lemma position_of_get_position:
  "position_of (snd (get_position s' st)) s = position_of st s"
  by (auto simp: position_of_alt positions_get_position)

lemma position_of_cash_upd:
  "position_of (st\<lparr>BacktestState.cash := c\<rparr>) s = position_of st s"
  by (simp add: position_of_alt)

lemma position_of_trades_upd:
  "position_of (st\<lparr>BacktestState.trades := ts\<rparr>) s = position_of st s"
  by (simp add: position_of_alt)

lemma update_position_buy:
  assumes "Order.side ord = BUY"
  shows "update_position st ord bar fp =
     Inr (store_position (Order.symbol ord)
       ((position_of st (Order.symbol ord))
          \<lparr>avg_price :=
             (if Position.quantity (position_of st (Order.symbol ord)) + Order.quantity ord \<noteq> 0
              then (Position.quantity (position_of st (Order.symbol ord))
                      * avg_price (position_of st (Order.symbol ord))
                    + Order.quantity ord * fp)
                   / (Position.quantity (position_of st (Order.symbol ord)) + Order.quantity ord)
              else avg_price (position_of st (Order.symbol ord))),
           Position.entry_time :=
             (if Position.quantity (position_of st (Order.symbol ord)) = 0
              then Some (Bar.timestamp bar)
              else Position.entry_time (position_of st (Order.symbol ord))),
           Position.quantity :=
             Position.quantity (position_of st (Order.symbol ord)) + Order.quantity ord\<rparr>)
       (snd (get_position (Order.symbol ord) st)))"
  using assms
  by (simp add: update_position_def Let_def position_of_def split: prod.splits)

lemma execute_order_buy_position:
  assumes "execute_order cfg st ord bar = Inr (True, st', ord')" "Order.side ord = BUY"
  shows "\<exists>fp. fill_price ord' = Some fp \<and> Order.symbol ord' = Order.symbol ord \<and>
     Position.quantity (position_of st' (Order.symbol ord)) =
        Position.quantity (position_of st (Order.symbol ord)) + Order.quantity ord \<and>
     avg_price (position_of st' (Order.symbol ord)) =
       (if Position.quantity (position_of st (Order.symbol ord)) + Order.quantity ord \<noteq> 0
        then (Position.quantity (position_of st (Order.symbol ord))
               * avg_price (position_of st (Order.symbol ord)) + Order.quantity ord * fp)
             / (Position.quantity (position_of st (Order.symbol ord)) + Order.quantity ord)
        else avg_price (position_of st (Order.symbol ord)))"
  using assms
  by (auto simp: execute_order_def Let_def update_position_buy position_of_store
        mark_filled_def position_of_get_position position_of_cash_upd
      split: sum.splits option.splits if_splits)

text \<open>
  Buys of positive quantities add up: the quantity grows by the quantities bought, and
  quantity times average cost grows by the transaction values.
\<close>

lemma buys_accumulate:
  assumes "fills cfg st fs st'"
    and "\<forall>f\<in>set fs. Order.symbol f = s \<and> Order.side f = BUY \<and> Order.quantity f > 0"
    and "Position.quantity (position_of st s) \<ge> 0"
  shows "Position.quantity (position_of st' s) =
           Position.quantity (position_of st s) + (\<Sum>f \<leftarrow> fs. Order.quantity f)
       \<and> Position.quantity (position_of st' s) * avg_price (position_of st' s) =
           Position.quantity (position_of st s) * avg_price (position_of st s)
           + (\<Sum>f \<leftarrow> fs. transaction_value f)"
  using assms
proof (induction rule: fills.induct)
  case (fills_Nil st)
  show ?case by simp
next
  case (fills_Cons st ord bar st1 ord1 fs st2)
  from fills_Cons.prems(1)
  have o1: "Order.symbol ord1 = s" "Order.side ord1 = BUY" "Order.quantity ord1 > 0"
    and rest: "\<forall>f\<in>set fs. Order.symbol f = s \<and> Order.side f = BUY \<and> Order.quantity f > 0"
    by simp_all
  from execute_order_cash[OF fills_Cons.hyps(1)] o1
  have buy: "Order.side ord = BUY" and q: "Order.quantity ord = Order.quantity ord1"
    by auto
  from execute_order_buy_position[OF fills_Cons.hyps(1) buy] obtain fp where
    fp: "fill_price ord1 = Some fp" and sym: "Order.symbol ord1 = Order.symbol ord"
    and q1: "Position.quantity (position_of st1 (Order.symbol ord)) =
        Position.quantity (position_of st (Order.symbol ord)) + Order.quantity ord"
    and a1: "avg_price (position_of st1 (Order.symbol ord)) =
       (if Position.quantity (position_of st (Order.symbol ord)) + Order.quantity ord \<noteq> 0
        then (Position.quantity (position_of st (Order.symbol ord))
                * avg_price (position_of st (Order.symbol ord)) + Order.quantity ord * fp)
             / (Position.quantity (position_of st (Order.symbol ord)) + Order.quantity ord)
        else avg_price (position_of st (Order.symbol ord)))"
    by blast
  from sym o1 have s: "Order.symbol ord = s" by simp
  let ?Q = "Position.quantity (position_of st s)"
  let ?A = "avg_price (position_of st s)"
  from fills_Cons.prems(2) o1 q have pos: "?Q + Order.quantity ord > 0" by simp
  from q1 s have Q1: "Position.quantity (position_of st1 s) = ?Q + Order.quantity ord"
    by simp
  from a1 s pos have "avg_price (position_of st1 s) =
      (?Q * ?A + Order.quantity ord * fp) / (?Q + Order.quantity ord)"
    by simp
  with pos have A1: "(?Q + Order.quantity ord) * avg_price (position_of st1 s) =
      ?Q * ?A + Order.quantity ord * fp"
    by simp
  from fp q have tv: "transaction_value ord1 = Order.quantity ord * fp"
    by (simp add: transaction_value_def)
  from Q1 pos have "Position.quantity (position_of st1 s) \<ge> 0" by simp
  from fills_Cons.IH[OF rest this]
  have Q2: "Position.quantity (position_of st2 s) =
           Position.quantity (position_of st1 s) + (\<Sum>f \<leftarrow> fs. Order.quantity f)"
    and A2: "Position.quantity (position_of st2 s) * avg_price (position_of st2 s) =
           Position.quantity (position_of st1 s) * avg_price (position_of st1 s)
           + (\<Sum>f \<leftarrow> fs. transaction_value f)"
    by blast+
  from Q2 Q1 q have "Position.quantity (position_of st2 s) =
      ?Q + (\<Sum>f \<leftarrow> ord1 # fs. Order.quantity f)"
    by simp
  moreover from A2 Q1 A1 tv
  have "Position.quantity (position_of st2 s) * avg_price (position_of st2 s) =
      ?Q * ?A + (\<Sum>f \<leftarrow> ord1 # fs. transaction_value f)"
    by simp
  ultimately show ?case by blast
qed

lemma sum_list_pos_real:
  fixes g :: "'a \<Rightarrow> real"
  shows "xs \<noteq> [] \<Longrightarrow> \<forall>x\<in>set xs. 0 < g x \<Longrightarrow> 0 < (\<Sum>x \<leftarrow> xs. g x)"
  by (induction xs rule: list_nonempty_induct) (simp_all add: add_pos_pos)

lemma second_buy_step:
  "execute_order default_config after_buy (market_order ''AAPL'' BUY 50) (bar_at 2 80)
     = Inr (True, after_buy_more, filled_buy_more)"
  by (simp add: engine_defs scenario_defs after_buy_def after_buy_more_def
      filled_buy_more_def ledger_def aapl_def)

lemma two_buys_fills:
  "fills default_config (reset default_config) [filled_buy, filled_buy_more] after_buy_more"
  by (rule fills_Cons[OF buy_step fills_Cons[OF second_buy_step fills_Nil]])

text \<open>
  Claim C3.  A buy that fills and leaves a quantity other than 0 sets the average cost to
  (old quantity times old average plus order quantity times fill price) divided by the
  new quantity.  So after any sequence of buy fills of one symbol, each of a positive
  quantity (an Order has quantity > 0), from a position of quantity 0, the position
  holds the sum of the quantities bought at an average cost equal to the
  quantity-weighted mean of the fill prices.
\<close>

theorem average_cost_of_buys:
  "(execute_order cfg st ord bar = Inr (True, st1, ord1) \<and> Order.side ord = BUY
      \<and> Position.quantity (position_of st (Order.symbol ord)) + Order.quantity ord \<noteq> 0 \<longrightarrow>
      (\<exists>fp. fill_price ord1 = Some fp
         \<and> Position.quantity (position_of st1 (Order.symbol ord)) =
             Position.quantity (position_of st (Order.symbol ord)) + Order.quantity ord
         \<and> avg_price (position_of st1 (Order.symbol ord)) =
             (Position.quantity (position_of st (Order.symbol ord))
                * avg_price (position_of st (Order.symbol ord)) + Order.quantity ord * fp)
             / (Position.quantity (position_of st (Order.symbol ord)) + Order.quantity ord)))
   \<and> (fills cfg st0 fs st2 \<and> fs \<noteq> []
        \<and> (\<forall>f\<in>set fs. Order.symbol f = s \<and> Order.side f = BUY \<and> 0 < Order.quantity f)
        \<and> Position.quantity (position_of st0 s) = 0 \<longrightarrow>
        Position.quantity (position_of st2 s) = (\<Sum>f \<leftarrow> fs. Order.quantity f)
        \<and> avg_price (position_of st2 s) = weighted_mean_price fs)"
proof (rule conjI; rule impI)
  assume h: "execute_order cfg st ord bar = Inr (True, st1, ord1) \<and> Order.side ord = BUY
      \<and> Position.quantity (position_of st (Order.symbol ord)) + Order.quantity ord \<noteq> 0"
  then have "execute_order cfg st ord bar = Inr (True, st1, ord1)" "Order.side ord = BUY"
    by simp_all
  from execute_order_buy_position[OF this] h
  show "\<exists>fp. fill_price ord1 = Some fp
         \<and> Position.quantity (position_of st1 (Order.symbol ord)) =
             Position.quantity (position_of st (Order.symbol ord)) + Order.quantity ord
         \<and> avg_price (position_of st1 (Order.symbol ord)) =
             (Position.quantity (position_of st (Order.symbol ord))
                * avg_price (position_of st (Order.symbol ord)) + Order.quantity ord * fp)
             / (Position.quantity (position_of st (Order.symbol ord)) + Order.quantity ord)"
    by auto
next
  assume h: "fills cfg st0 fs st2 \<and> fs \<noteq> []
        \<and> (\<forall>f\<in>set fs. Order.symbol f = s \<and> Order.side f = BUY \<and> 0 < Order.quantity f)
        \<and> Position.quantity (position_of st0 s) = 0"
  then have f: "fills cfg st0 fs st2"
    and a: "\<forall>f\<in>set fs. Order.symbol f = s \<and> Order.side f = BUY \<and> 0 < Order.quantity f"
    and z: "Position.quantity (position_of st0 s) = 0" and ne: "fs \<noteq> []"
    by simp_all
  from z have "Position.quantity (position_of st0 s) \<ge> 0" by simp
  note acc = buys_accumulate[OF f a this]
  from acc[THEN conjunct1] z
  have Q: "Position.quantity (position_of st2 s) = (\<Sum>f \<leftarrow> fs. Order.quantity f)"
    by simp
  from acc[THEN conjunct2] z
  have A: "Position.quantity (position_of st2 s) * avg_price (position_of st2 s) =
              (\<Sum>f \<leftarrow> fs. transaction_value f)"
    by simp
  from a have "\<forall>f\<in>set fs. 0 < Order.quantity f" by blast
  from sum_list_pos_real[OF ne this] have "0 < (\<Sum>f \<leftarrow> fs. Order.quantity f)" .
  with Q A have "avg_price (position_of st2 s) = weighted_mean_price fs"
    by (simp add: weighted_mean_price_def field_simps)
  with Q show "Position.quantity (position_of st2 s) = (\<Sum>f \<leftarrow> fs. Order.quantity f)
        \<and> avg_price (position_of st2 s) = weighted_mean_price fs"
    by simp
qed

theorem average_cost_of_buys_witness:
  "execute_order default_config after_buy (market_order ''AAPL'' BUY 50) (bar_at 2 80)
     = Inr (True, after_buy_more, filled_buy_more)
   \<and> Position.quantity (position_of after_buy ''AAPL'') + 50 \<noteq> 0
   \<and> avg_price (position_of after_buy_more ''AAPL'')
       = (100 * (2001 / 40) + 50 * (2001 / 25)) / (100 + 50)
   \<and> fills default_config (reset default_config) [filled_buy, filled_buy_more] after_buy_more
   \<and> Position.quantity (position_of (reset default_config) ''AAPL'') = 0
   \<and> Position.quantity (position_of after_buy_more ''AAPL'') = 150
   \<and> weighted_mean_price [filled_buy, filled_buy_more] = 6003 / 100
   \<and> avg_price (position_of after_buy_more ''AAPL'') = 6003 / 100"
  using average_cost_of_buys[where cfg = default_config and st = after_buy
      and ord = "market_order ''AAPL'' BUY 50" and bar = "bar_at 2 80"
      and ?st1.0 = after_buy_more and ?ord1.0 = filled_buy_more
      and ?st0.0 = "reset default_config" and fs = "[filled_buy, filled_buy_more]"
      and ?st2.0 = after_buy_more and s = "''AAPL''"]
    second_buy_step two_buys_fills
  by (simp add: position_of_alt after_buy_def after_buy_more_def ledger_def aapl_def
      weighted_mean_price_def transaction_value_def filled_buy_def filled_buy_more_def
      mark_filled_def scenario_defs new_position_def)

section \<open>The trade log\<close>

lemma get_position_trades:
  "BacktestState.trades (snd (get_position s st)) = BacktestState.trades st"
  by (simp add: get_position_def split: option.splits)

lemma store_position_trades:
  "BacktestState.trades (store_position s p st) = BacktestState.trades st"
  by (simp add: store_position_def)

lemma update_position_sell_trades:
  assumes "Order.side ord = SELL" "update_position st ord bar fp = Inr st'"
  shows "BacktestState.trades st' =
     (if Position.quantity (position_of st (Order.symbol ord)) > 0
      then BacktestState.trades st @ [closing_trade (position_of st (Order.symbol ord)) ord bar fp]
      else BacktestState.trades st)"
  using assms get_position_trades[of "Order.symbol ord" st]
  by (auto simp: update_position_def Let_def position_of_def closing_trade_def
        store_position_trades
      split: prod.splits if_splits)

lemma update_position_buy_trades:
  assumes "Order.side ord = BUY" "update_position st ord bar fp = Inr st'"
  shows "BacktestState.trades st' = BacktestState.trades st"
  using assms get_position_trades[of "Order.symbol ord" st]
  by (auto simp: update_position_def Let_def store_position_trades split: prod.splits if_splits)

text \<open>
  A call that returns True went through \<open>update_position\<close>, on a state that differs from
  the one before the call in the cash and in the entry that \<open>get_position\<close> may add.
\<close>

lemma execute_order_filled:
  assumes "execute_order cfg st ord bar = Inr (True, st1, ord1)"
  shows "\<exists>base stc. base_price_of ord bar = Inr (Some base)
     \<and> ord1 = mark_filled ord bar (base * slippage_factor cfg ord)
     \<and> update_position stc ord bar (base * slippage_factor cfg ord) = Inr st1
     \<and> BacktestState.trades stc = BacktestState.trades st
     \<and> (\<forall>s. position_of stc s = position_of st s)"
proof (cases "Order.side ord")
  case BUY
  with assms show ?thesis
    by (auto simp: execute_order_def Let_def position_of_cash_upd
        split: sum.splits option.splits if_splits)
next
  case SELL
  obtain pos stg where g: "get_position (Order.symbol ord) st = (pos, stg)"
    by (cases "get_position (Order.symbol ord) st")
  then have stg: "stg = snd (get_position (Order.symbol ord) st)" by simp
  have t: "BacktestState.trades stg = BacktestState.trades st"
    unfolding stg by (rule get_position_trades)
  have p: "position_of stg s = position_of st s" for s
    unfolding stg by (rule position_of_get_position)
  from assms SELL g t p show ?thesis
    by (auto simp: execute_order_def Let_def position_of_cash_upd
        split: sum.splits option.splits if_splits)
qed

lemma execute_order_sell_trades:
  assumes "execute_order cfg st ord bar = Inr (True, st1, ord1)" "Order.side ord = SELL"
  shows "\<exists>fp. fill_price ord1 = Some fp \<and>
      BacktestState.trades st1 =
       (if Position.quantity (position_of st (Order.symbol ord)) > 0
        then BacktestState.trades st
               @ [closing_trade (position_of st (Order.symbol ord)) ord bar fp]
        else BacktestState.trades st)"
proof -
  from execute_order_filled[OF assms(1)] obtain base stc where
    o: "ord1 = mark_filled ord bar (base * slippage_factor cfg ord)"
    and u: "update_position stc ord bar (base * slippage_factor cfg ord) = Inr st1"
    and t: "BacktestState.trades stc = BacktestState.trades st"
    and p: "\<forall>s. position_of stc s = position_of st s"
    by blast
  from update_position_sell_trades[OF assms(2) u] t p
  have "BacktestState.trades st1 =
       (if Position.quantity (position_of st (Order.symbol ord)) > 0
        then BacktestState.trades st @
           [closing_trade (position_of st (Order.symbol ord)) ord bar
              (base * slippage_factor cfg ord)]
        else BacktestState.trades st)"
    by simp
  moreover from o have "fill_price ord1 = Some (base * slippage_factor cfg ord)"
    by (simp add: mark_filled_def)
  ultimately show ?thesis by blast
qed

lemma reversal_steps:
  "execute_order frictionless (reset frictionless) (market_order ''AAPL'' BUY 10) (bar_at 1 100)
     = Inr (True, long_ten, bought_ten)"
  "execute_order frictionless long_ten (market_order ''AAPL'' SELL 15) (bar_at 2 100)
     = Inr (True, short_five, sold_fifteen)"
  by (simp_all add: engine_defs scenario_defs ledger_def aapl_def long_ten_def short_five_def
      bought_ten_def sold_fifteen_def closed_long_def)

lemma one_share_steps:
  "execute_order frictionless short_five (market_order ''AAPL'' BUY 6) (bar_at 3 50)
     = Inr (True, long_one, bought_six)"
  "execute_order frictionless long_one (market_order ''AAPL'' SELL 1) (bar_at 4 50)
     = Inr (True, flat_after_sale, sold_one)"
  by (simp_all add: engine_defs scenario_defs ledger_def aapl_def short_five_def long_one_def
      flat_after_sale_def bought_six_def sold_one_def closed_long_def closed_one_def)

lemma short_sale_step:
  "execute_order frictionless (reset frictionless) (market_order ''AAPL'' SELL 5) (bar_at 1 100)
     = Inr (True, short_opened, sold_short)"
  by (simp add: engine_defs scenario_defs ledger_def aapl_def short_opened_def sold_short_def)

text \<open>
  Claim C5, as the code has it.  A sell that fills appends exactly one Trade if the
  position held a quantity above 0 before the fill, and none otherwise.  The Trade's
  quantity is min(order quantity, old quantity), its realized P&L is that quantity times
  (fill price - old average), its entry price is the old average, its exit price is the
  fill price, and its return percentage is P&L / (closed quantity * entry price) when the
  entry price is above 0, and 0 when the entry price is 0 or negative.
\<close>

theorem sell_records_one_trade:
  "execute_order cfg st ord bar = Inr (True, st1, ord1) \<and> Order.side ord = SELL \<longrightarrow>
     (\<exists>fp. fill_price ord1 = Some fp \<and>
        (let old = position_of st (Order.symbol ord);
             closed = min (Order.quantity ord) (Position.quantity old)
         in if Position.quantity old > 0
            then (\<exists>t. BacktestState.trades st1 = BacktestState.trades st @ [t]
                   \<and> Trade.quantity t = closed
                   \<and> Trade.pnl t = closed * (fp - avg_price old)
                   \<and> Trade.entry_price t = avg_price old
                   \<and> Trade.exit_price t = fp
                   \<and> Trade.return_pct t =
                       (if Trade.entry_price t > 0
                        then Trade.pnl t / (closed * Trade.entry_price t) else 0))
            else BacktestState.trades st1 = BacktestState.trades st))"
proof
  assume h: "execute_order cfg st ord bar = Inr (True, st1, ord1) \<and> Order.side ord = SELL"
  then have ex: "execute_order cfg st ord bar = Inr (True, st1, ord1)"
    and sell: "Order.side ord = SELL"
    by simp_all
  from execute_order_sell_trades[OF ex sell] obtain fp where
    fp: "fill_price ord1 = Some fp"
    and t: "BacktestState.trades st1 =
       (if Position.quantity (position_of st (Order.symbol ord)) > 0
        then BacktestState.trades st
               @ [closing_trade (position_of st (Order.symbol ord)) ord bar fp]
        else BacktestState.trades st)"
    by blast
  from t have "(let old = position_of st (Order.symbol ord);
             closed = min (Order.quantity ord) (Position.quantity old)
         in if Position.quantity old > 0
            then (\<exists>t. BacktestState.trades st1 = BacktestState.trades st @ [t]
                   \<and> Trade.quantity t = closed
                   \<and> Trade.pnl t = closed * (fp - avg_price old)
                   \<and> Trade.entry_price t = avg_price old
                   \<and> Trade.exit_price t = fp
                   \<and> Trade.return_pct t =
                       (if Trade.entry_price t > 0
                        then Trade.pnl t / (closed * Trade.entry_price t) else 0))
            else BacktestState.trades st1 = BacktestState.trades st)"
    by (simp add: Let_def closing_trade_def)
  with fp show "\<exists>fp. fill_price ord1 = Some fp \<and>
        (let old = position_of st (Order.symbol ord);
             closed = min (Order.quantity ord) (Position.quantity old)
         in if Position.quantity old > 0
            then (\<exists>t. BacktestState.trades st1 = BacktestState.trades st @ [t]
                   \<and> Trade.quantity t = closed
                   \<and> Trade.pnl t = closed * (fp - avg_price old)
                   \<and> Trade.entry_price t = avg_price old
                   \<and> Trade.exit_price t = fp
                   \<and> Trade.return_pct t =
                       (if Trade.entry_price t > 0
                        then Trade.pnl t / (closed * Trade.entry_price t) else 0))
            else BacktestState.trades st1 = BacktestState.trades st)"
    by blast
qed

theorem sell_records_one_trade_witness:
  "execute_order default_config after_buy (market_order ''AAPL'' SELL 40) (bar_at 2 60)
     = Inr (True, after_sell, filled_sell)
   \<and> Order.side (market_order ''AAPL'' SELL 40) = SELL
   \<and> fill_price filled_sell = Some (5997 / 100)
   \<and> Position.quantity (position_of after_buy ''AAPL'') = 100
   \<and> BacktestState.trades after_sell = BacktestState.trades after_buy @
        [\<lparr>Trade.symbol = ''AAPL'', entry_time = 1, exit_time = 2, side = BUY, quantity = 40,
          entry_price = 2001 / 40, exit_price = 5997 / 100,
          pnl = 40 * (5997 / 100 - 2001 / 40),
          return_pct = 40 * (5997 / 100 - 2001 / 40) / (40 * (2001 / 40))\<rparr>]"
  using sell_records_one_trade[of default_config after_buy "market_order ''AAPL'' SELL 40"
      "bar_at 2 60" after_sell filled_sell] sell_step
  by (simp add: position_of_alt after_buy_def after_sell_def filled_sell_def mark_filled_def
      scenario_defs)

theorem negative_entry_price_counterexample:
  "fills frictionless (reset frictionless) [bought_ten, sold_fifteen, bought_six] long_one
   \<and> Position.quantity (position_of long_one ''AAPL'') = 1
   \<and> execute_order frictionless long_one (market_order ''AAPL'' SELL 1) (bar_at 4 50)
       = Inr (True, flat_after_sale, sold_one)
   \<and> BacktestState.trades flat_after_sale = BacktestState.trades long_one @ [closed_one]
   \<and> Trade.entry_price closed_one \<noteq> 0
   \<and> Trade.return_pct closed_one = 0
   \<and> Trade.pnl closed_one / (Trade.quantity closed_one * Trade.entry_price closed_one) = - 5 / 4
   \<and> Trade.return_pct closed_one
       \<noteq> Trade.pnl closed_one / (Trade.quantity closed_one * Trade.entry_price closed_one)"
proof -
  have "fills frictionless (reset frictionless) [bought_ten, sold_fifteen, bought_six] long_one"
    by (rule fills_Cons[OF reversal_steps(1)
          fills_Cons[OF reversal_steps(2) fills_Cons[OF one_share_steps(1) fills_Nil]]])
  with one_share_steps(2) show ?thesis
    by (simp add: position_of_alt long_one_def flat_after_sale_def closed_one_def ledger_def
        aapl_def)
qed

section \<open>Positions of quantity 0\<close>

text \<open>
  The sell branch clears the average cost and the entry time of a position that it
  brings to quantity 0 (lines 233-236).
\<close>

lemma update_position_sell_flat:
  assumes "Order.side ord = SELL" "update_position st ord bar fp = Inr st'"
  shows "Position.quantity (position_of st' (Order.symbol ord)) =
           Position.quantity (position_of st (Order.symbol ord)) - Order.quantity ord
       \<and> (Position.quantity (position_of st' (Order.symbol ord)) = 0 \<longrightarrow>
            avg_price (position_of st' (Order.symbol ord)) = 0
            \<and> Position.entry_time (position_of st' (Order.symbol ord)) = None)"
  using assms
  by (auto simp: update_position_def Let_def position_of_store
        position_of_def[of st "Order.symbol ord"]
      split: prod.splits if_splits)

lemma sell_clears_flat_position:
  assumes "execute_order cfg st ord bar = Inr (True, st1, ord1)" "Order.side ord = SELL"
    and "Position.quantity (position_of st1 (Order.symbol ord)) = 0"
  shows "avg_price (position_of st1 (Order.symbol ord)) = 0
       \<and> Position.entry_time (position_of st1 (Order.symbol ord)) = None"
proof -
  from execute_order_filled[OF assms(1)] obtain base stc where
    "update_position stc ord bar (base * slippage_factor cfg ord) = Inr st1"
    by blast
  from update_position_sell_flat[OF assms(2) this] assms(3) show ?thesis by blast
qed

lemma cover_step:
  "execute_order frictionless short_five (market_order ''AAPL'' BUY 5) (bar_at 3 100)
     = Inr (True, flat_after_cover, bought_five)"
  by (simp add: engine_defs scenario_defs ledger_def aapl_def short_five_def
      flat_after_cover_def bought_five_def closed_long_def)

text \<open>
  Claim C4, at an input where the code breaks it.  From a fresh ledger, with shorting
  allowed as by default, ten shares are bought, fifteen are sold and five are bought,
  all at 100.  Every order fills.  The last buy covers the short position of five
  exactly, and the buy branch (lines 204-211) leaves the position at quantity 0 with
  the average cost 100 and the entry time 1 of the earlier lot.
\<close>

theorem cover_to_zero_keeps_cost_basis:
  "allow_shorting frictionless
   \<and> fills frictionless (reset frictionless) [bought_ten, sold_fifteen, bought_five]
       flat_after_cover
   \<and> Position.quantity (position_of flat_after_cover ''AAPL'') = 0
   \<and> avg_price (position_of flat_after_cover ''AAPL'') = 100
   \<and> Position.entry_time (position_of flat_after_cover ''AAPL'') = Some 1"
proof -
  have "fills frictionless (reset frictionless) [bought_ten, sold_fifteen, bought_five]
          flat_after_cover"
    by (rule fills_Cons[OF reversal_steps(1)
          fills_Cons[OF reversal_steps(2) fills_Cons[OF cover_step fills_Nil]]])
  then show ?thesis
    by (simp add: position_of_alt flat_after_cover_def ledger_def aapl_def scenario_defs)
qed

section \<open>The bar loop\<close>

lemmas loop_defs =
  process_bar_def mark_bar_def update_positions_def mark_position_def lookups_def
  get_equity_def

lemma day_run:
  "run (engine_of frictionless [bar_at 1 100] in_and_out)
     = Inr (day_result, (engine_of frictionless [bar_at 1 100] in_and_out)\<lparr>state := day_state\<rparr>)"
  by (simp add: run_def engine_of_def in_and_out_def loop_defs engine_defs scenario_defs
      compile_results_def calculate_metrics_def day_result_def day_state_def day_trade_def
      aapl_def)

lemma round_trip_two_bars:
  "run_bars round_trip
     \<lparr>config = frictionless, data = Some three_bars, state = reset frictionless\<rparr> 0
     [bar_at 1 50, bar_at 2 60]
   = Inr \<lparr>config = frictionless, data = Some three_bars, state = closed_out\<rparr>"
  by (simp add: round_trip_def loop_defs engine_defs scenario_defs closed_out_def)

section \<open>Marking to market\<close>

lemma fold_add_sum_list:
  fixes g :: "'a \<Rightarrow> real"
  shows "fold (\<lambda>x acc. acc + g x) xs a = a + (\<Sum>x \<leftarrow> xs. g x)"
  by (induction xs arbitrary: a) simp_all

lemma get_equity_sum:
  "get_equity st =
     BacktestState.cash st
     + (\<Sum>pos \<leftarrow> map snd (positions st).
          Position.quantity pos * avg_price pos + unrealized_pnl pos)"
  by (simp add: get_equity_def fold_add_sum_list)

text \<open>
  What the mark-to-market step does establish: every position of a quantity other than 0
  carries the unrealized P&L of the bar's close, and such a position contributes its
  quantity times the close to the equity.
\<close>

lemma mark_bar_open_positions:
  assumes "(s, pos) \<in> set (positions (mark_bar bar st))" "Position.quantity pos \<noteq> 0"
  shows "unrealized_pnl pos = Position.quantity pos * (close bar - avg_price pos)
       \<and> Position.quantity pos * avg_price pos + unrealized_pnl pos
           = Position.quantity pos * close bar"
  using assms
  by (auto simp: mark_bar_def update_positions_def mark_position_def algebra_simps
      split: if_splits)


text \<open>
  Claim C1, at an input where the code breaks it.  Without commission and slippage, a
  strategy buys 100 shares on a bar that closes at 50 and sells them on the next bar,
  which closes at 60; the third bar closes at 60 too.  The sale leaves the position at
  quantity 0 with the unrealized P&L of 1000 that the second bar's mark step gave it.
  The third bar's mark step skips the position.  So right after that step the position
  of quantity 0 has an unrealized P&L of 1000, where quantity times (close - average
  cost) is 0, and \<open>get_equity\<close> is 102000, where cash plus the sum of quantity times
  close is 101000.
\<close>

theorem flat_position_keeps_unrealized_pnl:
  "run_bars round_trip
     \<lparr>config = frictionless, data = Some three_bars, state = reset frictionless\<rparr> 0
     [bar_at 1 50, bar_at 2 60]
     = Inr \<lparr>config = frictionless, data = Some three_bars, state = closed_out\<rparr>
   \<and> map fst (positions (mark_bar (bar_at 3 60) closed_out)) = [''AAPL'']
   \<and> Position.quantity (position_of (mark_bar (bar_at 3 60) closed_out) ''AAPL'') = 0
   \<and> avg_price (position_of (mark_bar (bar_at 3 60) closed_out) ''AAPL'') = 0
   \<and> unrealized_pnl (position_of (mark_bar (bar_at 3 60) closed_out) ''AAPL'') = 1000
   \<and> BacktestState.cash (mark_bar (bar_at 3 60) closed_out) = 101000
   \<and> get_equity (mark_bar (bar_at 3 60) closed_out) = 102000"
  using round_trip_two_bars
  by (simp add: position_of_alt loop_defs closed_out_def scenario_defs)

section \<open>The side of recorded trades\<close>

lemma execute_order_rejected:
  assumes "execute_order cfg st ord bar = Inr (False, st1, ord1)"
  shows "BacktestState.trades st1 = BacktestState.trades st"
proof (cases "Order.side ord")
  case BUY
  with assms have "st1 = st"
    by (auto simp: execute_order_def Let_def split: sum.splits option.splits if_splits)
  then show ?thesis by simp
next
  case SELL
  with assms have "st1 = st \<or> st1 = snd (get_position (Order.symbol ord) st)"
    by (auto simp: execute_order_def Let_def split: sum.splits option.splits if_splits prod.splits)
  then show ?thesis by (auto simp: get_position_trades)
qed

lemma execute_order_appends:
  assumes "execute_order cfg st ord bar = Inr (ok, st1, ord1)"
  shows "\<exists>new. BacktestState.trades st1 = BacktestState.trades st @ new
           \<and> (\<forall>t\<in>set new. Trade.side t = BUY)"
proof (cases ok)
  case True
  with assms have ex: "execute_order cfg st ord bar = Inr (True, st1, ord1)" by simp
  show ?thesis
  proof (cases "Order.side ord")
    case BUY
    from execute_order_filled[OF ex] obtain base stc where
      u: "update_position stc ord bar (base * slippage_factor cfg ord) = Inr st1"
      and t: "BacktestState.trades stc = BacktestState.trades st"
      by blast
    from update_position_buy_trades[OF BUY u] t
    have "BacktestState.trades st1 = BacktestState.trades st @ []" by simp
    then show ?thesis by (intro exI[of _ "[]"]) simp
  next
    case SELL
    from execute_order_sell_trades[OF ex SELL] obtain fp where
      t: "BacktestState.trades st1 =
       (if Position.quantity (position_of st (Order.symbol ord)) > 0
        then BacktestState.trades st
               @ [closing_trade (position_of st (Order.symbol ord)) ord bar fp]
        else BacktestState.trades st)"
      by blast
    show ?thesis
    proof (cases "Position.quantity (position_of st (Order.symbol ord)) > 0")
      case True
      with t have "BacktestState.trades st1 = BacktestState.trades st
          @ [closing_trade (position_of st (Order.symbol ord)) ord bar fp]"
        by simp
      then show ?thesis
        by (intro exI[of _ "[closing_trade (position_of st (Order.symbol ord)) ord bar fp]"])
           (simp add: closing_trade_def)
    next
      case False
      with t have "BacktestState.trades st1 = BacktestState.trades st @ []" by simp
      then show ?thesis by (intro exI[of _ "[]"]) simp
    qed
  qed
next
  case False
  with assms have "BacktestState.trades st1 = BacktestState.trades st"
    by (simp add: execute_order_rejected)
  then show ?thesis by (intro exI[of _ "[]"]) simp
qed



lemma execute_order_all_buy:
  "execute_order cfg st ord bar = Inr (ok, st1, ord1) \<Longrightarrow> all_buy st \<Longrightarrow> all_buy st1"
  using execute_order_appends[of cfg st ord bar ok st1 ord1]
  by (auto simp: all_buy_def)

lemma execute_orders_all_buy:
  "execute_orders cfg st ords bar = Inr st' \<Longrightarrow> all_buy st \<Longrightarrow> all_buy st'"
proof (induction ords arbitrary: st)
  case Nil
  then show ?case by simp
next
  case (Cons ord ords)
  from Cons.prems(1) obtain ok st1 ord1 where
    ex: "execute_order cfg st (ord\<lparr>Order.timestamp := Some (Bar.timestamp bar)\<rparr>) bar
           = Inr (ok, st1, ord1)"
    and rest: "execute_orders cfg
        (if ok then st1\<lparr>orders := orders st1 @ [ord1]\<rparr> else st1) ords bar = Inr st'"
    by (auto split: sum.splits prod.splits)
  from execute_order_all_buy[OF ex Cons.prems(2)]
  have "all_buy (if ok then st1\<lparr>orders := orders st1 @ [ord1]\<rparr> else st1)"
    by (simp add: all_buy_def)
  from Cons.IH[OF rest this] show ?case .
qed

lemma lookups_trades:
  "BacktestState.trades (lookups syms st) = BacktestState.trades st"
  unfolding lookups_def
  by (induction syms arbitrary: st) (simp_all add: get_position_trades)


lemma process_bar_Inr:
  assumes "process_bar f e idx bar = Inr e'"
  shows "\<exists>syms ords st3.
      f (e\<lparr>state := mark_bar bar (state e)\<rparr>) idx bar = (syms, ords)
    \<and> execute_orders (config e) (lookups syms (mark_bar bar (state e))) ords bar = Inr st3
    \<and> e' = e\<lparr>state := st3\<lparr>BacktestState.equity_curve := BacktestState.equity_curve st3 @
                    [\<lparr>EquityPoint.timestamp = Bar.timestamp bar, equity = get_equity st3,
                      cash = BacktestState.cash st3\<rparr>]\<rparr>\<rparr>"
proof -
  obtain syms ords where s: "f (e\<lparr>state := mark_bar bar (state e)\<rparr>) idx bar = (syms, ords)"
    by (cases "f (e\<lparr>state := mark_bar bar (state e)\<rparr>) idx bar")
  show ?thesis
  proof (cases "execute_orders (config e) (lookups syms (mark_bar bar (state e))) ords bar")
    case (Inl err)
    with assms s show ?thesis by (simp add: process_bar_def Let_def)
  next
    case (Inr st3)
    with assms s show ?thesis by (simp add: process_bar_def Let_def)
  qed
qed

lemma process_bar_all_buy:
  assumes "process_bar f e idx bar = Inr e'" "all_buy (state e)"
  shows "all_buy (state e')"
proof -
  from process_bar_Inr[OF assms(1)] obtain syms ords st3 where
    x: "execute_orders (config e) (lookups syms (mark_bar bar (state e))) ords bar = Inr st3"
    and e': "e' = e\<lparr>state := st3\<lparr>BacktestState.equity_curve := BacktestState.equity_curve st3 @
                    [\<lparr>EquityPoint.timestamp = Bar.timestamp bar, equity = get_equity st3,
                      cash = BacktestState.cash st3\<rparr>]\<rparr>\<rparr>"
    by blast
  from assms(2) have "all_buy (lookups syms (mark_bar bar (state e)))"
    by (simp add: all_buy_def lookups_trades mark_bar_def update_positions_def)
  from execute_orders_all_buy[OF x this] e' show ?thesis
    by (simp add: all_buy_def)
qed

lemma run_bars_all_buy:
  "run_bars f e idx bars = Inr e' \<Longrightarrow> all_buy (state e) \<Longrightarrow> all_buy (state e')"
proof (induction bars arbitrary: e idx)
  case Nil
  then show ?case by simp
next
  case (Cons bar bars)
  from Cons.prems(1) obtain e1 where
    p: "process_bar f e idx bar = Inr e1" and r: "run_bars f e1 (Suc idx) bars = Inr e'"
    by (auto split: sum.splits)
  from Cons.IH[OF r process_bar_all_buy[OF p Cons.prems(2)]] show ?case .
qed

lemma compile_results_trades:
  "BacktestResult.trades (compile_results cfg st) = map trade_row (BacktestState.trades st)"
  by (simp add: compile_results_def Let_def)

lemma run_Inr:
  assumes "run e = Inr (res, e1)"
  shows "\<exists>bars f ev. data e = Some bars \<and> strategy e = Some f
     \<and> run_bars f \<lparr>config = config e, data = data e, state = reset (config e)\<rparr> 0 bars = Inr ev
     \<and> res = compile_results (config e) (state ev) \<and> e1 = e\<lparr>state := state ev\<rparr>"
  using assms
  by (auto simp: run_def split: option.splits sum.splits)


text \<open>
  Claim C10.  Every Trade that a call of \<open>_execute_order\<close> appends to the trade log has
  the side BUY, whatever the side of the order.  So every Trade in the log after a run
  has the side BUY, and every row of the trades that \<open>run\<close> returns has the side
  \<open>'BUY'\<close>: none has the side SELL.
\<close>

theorem recorded_trades_have_side_buy:
  "(execute_order cfg st ord bar = Inr (ok, st1, ord1) \<longrightarrow>
      (\<exists>new. BacktestState.trades st1 = BacktestState.trades st @ new
         \<and> (\<forall>t\<in>set new. Trade.side t = BUY \<and> Trade.side t \<noteq> SELL)))
   \<and> (run e = Inr (res, e1) \<longrightarrow>
        (\<forall>t\<in>set (BacktestState.trades (state e1)). Trade.side t = BUY \<and> Trade.side t \<noteq> SELL)
        \<and> (\<forall>row\<in>set (BacktestResult.trades res).
              TradeRow.side row = ''BUY'' \<and> TradeRow.side row \<noteq> ''SELL''))"
proof (rule conjI; rule impI)
  assume "execute_order cfg st ord bar = Inr (ok, st1, ord1)"
  from execute_order_appends[OF this] obtain new where
    "BacktestState.trades st1 = BacktestState.trades st @ new"
    "\<forall>t\<in>set new. Trade.side t = BUY"
    by blast
  then have "BacktestState.trades st1 = BacktestState.trades st @ new
         \<and> (\<forall>t\<in>set new. Trade.side t = BUY \<and> Trade.side t \<noteq> SELL)"
    by simp
  then show "\<exists>new. BacktestState.trades st1 = BacktestState.trades st @ new
         \<and> (\<forall>t\<in>set new. Trade.side t = BUY \<and> Trade.side t \<noteq> SELL)"
    by (rule exI)
next
  assume r: "run e = Inr (res, e1)"
  from run_Inr[OF r] obtain bars f ev where
    rb: "run_bars f \<lparr>config = config e, data = data e, state = reset (config e)\<rparr> 0 bars
           = Inr ev"
    and res: "res = compile_results (config e) (state ev)"
    and e1: "e1 = e\<lparr>state := state ev\<rparr>"
    by blast
  have "all_buy (reset (config e))" by (simp add: all_buy_def reset_def)
  with run_bars_all_buy[OF rb] have a: "all_buy (state ev)" by simp
  from a e1
  have "\<forall>t\<in>set (BacktestState.trades (state e1)). Trade.side t = BUY \<and> Trade.side t \<noteq> SELL"
    by (simp add: all_buy_def)
  moreover from a
  have "\<forall>row\<in>set (map trade_row (BacktestState.trades (state ev))).
          TradeRow.side row = ''BUY'' \<and> TradeRow.side row \<noteq> ''SELL''"
    by (simp add: all_buy_def trade_row_def)
  with res
  have "\<forall>row\<in>set (BacktestResult.trades res).
          TradeRow.side row = ''BUY'' \<and> TradeRow.side row \<noteq> ''SELL''"
    by (simp only: compile_results_trades)
  ultimately show "(\<forall>t\<in>set (BacktestState.trades (state e1)).
            Trade.side t = BUY \<and> Trade.side t \<noteq> SELL)
        \<and> (\<forall>row\<in>set (BacktestResult.trades res).
              TradeRow.side row = ''BUY'' \<and> TradeRow.side row \<noteq> ''SELL'')"
    by (rule conjI)
qed


theorem recorded_trades_have_side_buy_witness:
  "execute_order default_config after_buy (market_order ''AAPL'' SELL 40) (bar_at 2 60)
     = Inr (True, after_sell, filled_sell)
   \<and> Order.side (market_order ''AAPL'' SELL 40) = SELL
   \<and> length (BacktestState.trades after_sell) = length (BacktestState.trades after_buy) + 1
   \<and> map Trade.side (BacktestState.trades after_sell) = [BUY]
   \<and> run (engine_of frictionless [bar_at 1 100] in_and_out)
       = Inr (day_result,
              (engine_of frictionless [bar_at 1 100] in_and_out)\<lparr>state := day_state\<rparr>)
   \<and> map Trade.side (BacktestState.trades day_state) = [BUY]
   \<and> map TradeRow.side (BacktestResult.trades day_result) = [''BUY'']"
proof -
  note inst = recorded_trades_have_side_buy[of default_config after_buy
      "market_order ''AAPL'' SELL 40" "bar_at 2 60" True after_sell filled_sell
      "engine_of frictionless [bar_at 1 100] in_and_out" day_result
      "(engine_of frictionless [bar_at 1 100] in_and_out)\<lparr>state := day_state\<rparr>"]
  from inst[THEN conjunct1, rule_format, OF sell_step]
  have a: "map Trade.side (BacktestState.trades after_sell) = [BUY]"
    by (simp add: after_sell_def after_buy_def)
  from inst[THEN conjunct2, rule_format, OF day_run]
  have b: "map Trade.side (BacktestState.trades day_state) = [BUY]"
    and c: "map TradeRow.side (BacktestResult.trades day_result) = [''BUY'']"
    by (simp_all add: day_state_def day_result_def)
  have d: "length (BacktestState.trades after_sell) = length (BacktestState.trades after_buy) + 1"
    by (simp add: after_sell_def after_buy_def)
  have e: "Order.side (market_order ''AAPL'' SELL 40) = SELL"
    by (simp add: market_order_def)
  from sell_step e d a day_run b c show ?thesis by (intro conjI)
qed

section \<open>Runs are independent of earlier runs\<close>

lemma run_ignores_state: "run (e\<lparr>state := st\<rparr>) = run e"
  by (simp add: run_def cong: option.case_cong sum.case_cong)

lemma run_again:
  assumes "run e = Inr (res, e1)"
  shows "run e1 = Inr (res, e1)"
proof -
  from run_Inr[OF assms] obtain ev :: EngineView where
    e1: "e1 = e\<lparr>state := state ev\<rparr>" by blast
  then have "run e1 = run e" by (simp add: run_ignores_state)
  with assms show ?thesis by simp
qed

lemma run_no_bars:
  assumes "data e = Some []" "strategy e = Some f"
  shows "run e = Inr (compile_results (config e) (reset (config e)), e\<lparr>state := reset (config e)\<rparr>)"
  using assms by (simp add: run_def)

text \<open>
  Claim C9.  A call of \<open>run\<close> that passes its two checks runs the bar loop from the
  reset state: cash at the configured initial capital, and no positions, trades,
  executed orders or equity points.  The state the engine had before the call has no
  influence on what the call returns or on the state it leaves; so a second call on the
  engine as the first call left it, with the same data, configuration and strategy (a
  function of the engine view, the bar index and the bar), returns the same results.
\<close>

theorem run_starts_from_reset:
  "run (e\<lparr>state := st\<rparr>) = run e
   \<and> (run e = Inr (res, e1) \<longrightarrow> run e1 = Inr (res, e1))
   \<and> (data e = Some bars \<and> strategy e = Some f \<longrightarrow>
        run e =
          (case run_bars f \<lparr>config = config e, data = data e, state = reset (config e)\<rparr> 0 bars of
             Inl err \<Rightarrow> Inl err
           | Inr ev \<Rightarrow> Inr (compile_results (config e) (state ev), e\<lparr>state := state ev\<rparr>)))
   \<and> BacktestState.cash (reset (config e)) = BacktestConfig.initial_capital (config e)
   \<and> positions (reset (config e)) = []
   \<and> BacktestState.trades (reset (config e)) = []
   \<and> orders (reset (config e)) = []
   \<and> BacktestState.equity_curve (reset (config e)) = []"
proof (intro conjI impI)
  show "run (e\<lparr>state := st\<rparr>) = run e" by (rule run_ignores_state)
  show "run e1 = Inr (res, e1)" if "run e = Inr (res, e1)" using that by (rule run_again)
  show "run e =
          (case run_bars f \<lparr>config = config e, data = data e, state = reset (config e)\<rparr> 0 bars of
             Inl err \<Rightarrow> Inl err
           | Inr ev \<Rightarrow> Inr (compile_results (config e) (state ev), e\<lparr>state := state ev\<rparr>))"
    if "data e = Some bars \<and> strategy e = Some f"
    using that by (simp add: run_def)
qed (simp_all add: reset_def)

theorem run_starts_from_reset_witness:
  "run ((engine_of frictionless [bar_at 1 100] in_and_out)\<lparr>state := day_state\<rparr>)
     = run (engine_of frictionless [bar_at 1 100] in_and_out)
   \<and> run (engine_of frictionless [bar_at 1 100] in_and_out)
       = Inr (day_result, (engine_of frictionless [bar_at 1 100] in_and_out)\<lparr>state := day_state\<rparr>)
   \<and> run ((engine_of frictionless [bar_at 1 100] in_and_out)\<lparr>state := day_state\<rparr>)
       = Inr (day_result, (engine_of frictionless [bar_at 1 100] in_and_out)\<lparr>state := day_state\<rparr>)
   \<and> data (engine_of frictionless [bar_at 1 100] in_and_out) = Some [bar_at 1 100]
   \<and> strategy (engine_of frictionless [bar_at 1 100] in_and_out) = Some in_and_out
   \<and> state (engine_of frictionless [bar_at 1 100] in_and_out) \<noteq> day_state"
proof -
  note inst = run_starts_from_reset[where e = "engine_of frictionless [bar_at 1 100] in_and_out"
      and st = day_state and res = day_result
      and ?e1.0 = "(engine_of frictionless [bar_at 1 100] in_and_out)\<lparr>state := day_state\<rparr>"
      and bars = "[bar_at 1 100]" and f = in_and_out]
  note a = inst[THEN conjunct1]
  note b = inst[THEN conjunct2, THEN conjunct1, rule_format, OF day_run]
  have c: "data (engine_of frictionless [bar_at 1 100] in_and_out) = Some [bar_at 1 100]"
    "strategy (engine_of frictionless [bar_at 1 100] in_and_out) = Some in_and_out"
    "state (engine_of frictionless [bar_at 1 100] in_and_out) \<noteq> day_state"
    by (simp_all add: engine_of_def day_state_def reset_def)
  from a day_run b c show ?thesis by (intro conjI)
qed

section \<open>Limit orders\<close>

lemma limit_untouched:
  assumes "order_type ord \<noteq> ''MARKET''" "limit_price ord = Some lp"
    and "(Order.side ord = BUY \<and> lp < low bar) \<or> (Order.side ord = SELL \<and> high bar < lp)"
  shows "execute_order cfg st ord bar = Inr (False, st, ord)"
  using assms by (auto simp: execute_order_def base_price_of_def)

lemma limit_touched_base:
  assumes "order_type ord \<noteq> ''MARKET''" "limit_price ord = Some lp"
    and "\<not> ((Order.side ord = BUY \<and> lp < low bar) \<or> (Order.side ord = SELL \<and> high bar < lp))"
  shows "base_price_of ord bar = Inr (Some lp)"
  using assms by (cases "Order.side ord") (auto simp: base_price_of_def)

lemma market_base:
  "base_price_of (ord\<lparr>order_type := ''MARKET''\<rparr>) (bar\<lparr>close := lp\<rparr>) = Inr (Some lp)"
  by (simp add: base_price_of_def)

lemma update_position_order_type:
  "update_position st (ord\<lparr>order_type := ty\<rparr>) (bar\<lparr>close := c\<rparr>) fp = update_position st ord bar fp"
  by (simp add: update_position_def Let_def split: prod.splits
      cong: sum.case_cong if_cong option.case_cong)

lemma limit_like_market:
  assumes "base_price_of ord bar = Inr (Some lp)"
  shows "execute_order cfg st ord bar =
     map_sum id (\<lambda>(ok, s, ord1). (ok, s, ord1\<lparr>order_type := order_type ord\<rparr>))
       (execute_order cfg st (ord\<lparr>order_type := ''MARKET''\<rparr>) (bar\<lparr>close := lp\<rparr>))"
  using assms
  by (simp add: execute_order_def market_base update_position_order_type slippage_factor_def
      Let_def mark_filled_def split: sum.splits prod.splits)


text \<open>
  Claim C8.  An order of a type other than \<open>'MARKET'\<close>, with a limit price, takes the
  limit price as its base price.  If it is a buy whose limit is below the bar's low, or a
  sell whose limit is above the bar's high, the call returns False and leaves the state
  and the order as they were.  Otherwise the call goes on exactly as a market order does
  on a bar that closes at the limit price, and a fill is at the limit price times the
  slippage factor.
\<close>

theorem limit_order_execution:
  "order_type ord \<noteq> ''MARKET'' \<and> limit_price ord = Some lp \<longrightarrow>
     ((Order.side ord = BUY \<and> lp < low bar) \<or> (Order.side ord = SELL \<and> high bar < lp) \<longrightarrow>
        execute_order cfg st ord bar = Inr (False, st, ord))
   \<and> (\<not> ((Order.side ord = BUY \<and> lp < low bar) \<or> (Order.side ord = SELL \<and> high bar < lp)) \<longrightarrow>
        base_price_of ord bar = Inr (Some lp)
        \<and> execute_order cfg st ord bar =
            map_sum id (\<lambda>(ok, s, ord1). (ok, s, ord1\<lparr>order_type := order_type ord\<rparr>))
              (execute_order cfg st (ord\<lparr>order_type := ''MARKET''\<rparr>) (bar\<lparr>close := lp\<rparr>))
        \<and> (\<forall>st1 ord1. execute_order cfg st ord bar = Inr (True, st1, ord1) \<longrightarrow>
              fill_price ord1 = Some (lp * slippage_factor cfg ord)))"
proof (intro impI conjI allI)
  assume h: "order_type ord \<noteq> ''MARKET'' \<and> limit_price ord = Some lp"
  then have ty: "order_type ord \<noteq> ''MARKET''" and lim: "limit_price ord = Some lp"
    by simp_all
  {
    assume "(Order.side ord = BUY \<and> lp < low bar) \<or> (Order.side ord = SELL \<and> high bar < lp)"
    from limit_untouched[OF ty lim this]
    show "execute_order cfg st ord bar = Inr (False, st, ord)" .
  }
  {
    assume "\<not> ((Order.side ord = BUY \<and> lp < low bar) \<or> (Order.side ord = SELL \<and> high bar < lp))"
    from limit_touched_base[OF ty lim this]
    show b: "base_price_of ord bar = Inr (Some lp)" .
    from limit_like_market[OF b]
    show "execute_order cfg st ord bar =
            map_sum id (\<lambda>(ok, s, ord1). (ok, s, ord1\<lparr>order_type := order_type ord\<rparr>))
              (execute_order cfg st (ord\<lparr>order_type := ''MARKET''\<rparr>) (bar\<lparr>close := lp\<rparr>))" .
    fix st1 ord1
    assume "execute_order cfg st ord bar = Inr (True, st1, ord1)"
    from execute_order_cash[OF this] b
    show "fill_price ord1 = Some (lp * slippage_factor cfg ord)" by auto
  }
qed

theorem limit_order_execution_witness:
  "order_type (limit_order ''AAPL'' BUY 10 40) \<noteq> ''MARKET''
   \<and> limit_price (limit_order ''AAPL'' BUY 10 40) = Some 40
   \<and> Order.side (limit_order ''AAPL'' BUY 10 40) = BUY \<and> 40 < low wide_bar
   \<and> execute_order default_config (reset default_config) (limit_order ''AAPL'' BUY 10 40) wide_bar
       = Inr (False, reset default_config, limit_order ''AAPL'' BUY 10 40)
   \<and> order_type (limit_order ''AAPL'' BUY 10 55) \<noteq> ''MARKET''
   \<and> limit_price (limit_order ''AAPL'' BUY 10 55) = Some 55
   \<and> \<not> 55 < low wide_bar
   \<and> execute_order default_config (reset default_config) (limit_order ''AAPL'' BUY 10 55) wide_bar
       = Inr (True, after_limit_buy, mark_filled (limit_order ''AAPL'' BUY 10 55) wide_bar (22011 / 400))
   \<and> fill_price (mark_filled (limit_order ''AAPL'' BUY 10 55) wide_bar (22011 / 400))
       = Some (55 * slippage_factor default_config (limit_order ''AAPL'' BUY 10 55))"
proof -
  have p1: "order_type (limit_order ''AAPL'' BUY 10 40) \<noteq> ''MARKET''
      \<and> limit_price (limit_order ''AAPL'' BUY 10 40) = Some 40"
    by (simp add: limit_order_def market_order_def)
  have c1: "(Order.side (limit_order ''AAPL'' BUY 10 40) = BUY \<and> 40 < low wide_bar)
      \<or> (Order.side (limit_order ''AAPL'' BUY 10 40) = SELL \<and> high wide_bar < 40)"
    by (simp add: limit_order_def market_order_def wide_bar_def bar_at_def)
  note r1 = limit_order_execution[of "limit_order ''AAPL'' BUY 10 40" 40 wide_bar
      default_config "reset default_config", rule_format, OF p1, THEN conjunct1, rule_format, OF c1]
  have p2: "order_type (limit_order ''AAPL'' BUY 10 55) \<noteq> ''MARKET''
      \<and> limit_price (limit_order ''AAPL'' BUY 10 55) = Some 55"
    by (simp add: limit_order_def market_order_def)
  have c2: "\<not> ((Order.side (limit_order ''AAPL'' BUY 10 55) = BUY \<and> 55 < low wide_bar)
      \<or> (Order.side (limit_order ''AAPL'' BUY 10 55) = SELL \<and> high wide_bar < 55))"
    by (simp add: limit_order_def market_order_def wide_bar_def bar_at_def)
  have x: "execute_order default_config (reset default_config) (limit_order ''AAPL'' BUY 10 55) wide_bar
       = Inr (True, after_limit_buy, mark_filled (limit_order ''AAPL'' BUY 10 55) wide_bar (22011 / 400))"
    by (simp add: engine_defs scenario_defs wide_bar_def after_limit_buy_def ledger_def aapl_def)
  note r2 = limit_order_execution[of "limit_order ''AAPL'' BUY 10 55" 55 wide_bar
      default_config "reset default_config", rule_format, OF p2, THEN conjunct2, rule_format, OF c2,
      THEN conjunct2, THEN conjunct2, rule_format, OF x]
  have l: "Order.side (limit_order ''AAPL'' BUY 10 40) = BUY \<and> 40 < low wide_bar"
      "\<not> 55 < low wide_bar"
    by (simp_all add: limit_order_def market_order_def wide_bar_def bar_at_def)
  from p1 l r1 p2 x r2 show ?thesis by simp
qed

section \<open>Loading data\<close>

lemma load_data_missing:
  assumes "c \<in> set required" "c \<notin> set (columns df)"
  shows "\<exists>msg. load_data e df = Inl (ValueError msg)"
proof -
  from assms have "filter (\<lambda>c. c \<notin> set (columns df)) required \<noteq> []"
    by (auto simp: filter_empty_conv)
  then show ?thesis by (simp add: load_data_def Let_def)
qed

lemma load_data_complete:
  assumes "set required \<subseteq> set (columns df)"
  shows "load_data e df = Inr (e\<lparr>data := Some (sort_key Bar.timestamp (rows df))\<rparr>)"
proof -
  from assms have "filter (\<lambda>c. c \<notin> set (columns df)) required = []"
    by (auto simp: filter_empty_conv)
  then show ?thesis by (simp add: load_data_def Let_def)
qed

text \<open>
  Claim C7, as the code has it.  Loading a frame that lacks any of the columns timestamp,
  open, high, low, close, volume raises a ValueError and leaves the engine without data,
  so that \<open>run\<close> refuses to start; a frame with these six columns is loaded, sorted by
  timestamp.  The symbol column is not among the required ones: a frame that lacks only
  the symbol column is accepted at load time.
\<close>

theorem load_data_checks_six_columns:
  "(c \<in> set required \<and> c \<notin> set (columns df) \<longrightarrow>
      (\<exists>msg. load_data e df = Inl (ValueError msg)))
   \<and> (set required \<subseteq> set (columns df) \<longrightarrow>
        load_data e df = Inr (e\<lparr>data := Some (sort_key Bar.timestamp (rows df))\<rparr>))
   \<and> set required = {''timestamp'', ''open'', ''high'', ''low'', ''close'', ''volume''}
   \<and> ''symbol'' \<notin> set required
   \<and> (data e = None \<longrightarrow>
        run e = Inl (ValueError ''No data loaded. Call load_data() first.''))"
proof (intro conjI impI)
  show "\<exists>msg. load_data e df = Inl (ValueError msg)"
    if "c \<in> set required \<and> c \<notin> set (columns df)"
    using that load_data_missing[of c df e] by blast
  show "load_data e df = Inr (e\<lparr>data := Some (sort_key Bar.timestamp (rows df))\<rparr>)"
    if "set required \<subseteq> set (columns df)"
    using that by (rule load_data_complete)
  show "set required = {''timestamp'', ''open'', ''high'', ''low'', ''close'', ''volume''}"
    by (simp add: required_def)
  show "''symbol'' \<notin> set required" by (simp add: required_def)
  show "run e = Inl (ValueError ''No data loaded. Call load_data() first.'')"
    if "data e = None"
    using that by (simp add: run_def)
qed

theorem load_data_checks_six_columns_witness:
  "''close'' \<in> set required \<and> ''close'' \<notin> set (columns no_close_frame)
   \<and> load_data (init_engine None) no_close_frame
       = Inl (ValueError (''Missing required columns: '' @ repr_list [''close'']))
   \<and> data (init_engine None) = None
   \<and> run (init_engine None) = Inl (ValueError ''No data loaded. Call load_data() first.'')
   \<and> set required \<subseteq> set (columns ohlcv_frame)
   \<and> load_data (init_engine None) ohlcv_frame
       = Inr ((init_engine None)\<lparr>data := Some (rows ohlcv_frame)\<rparr>)"
proof -
  have m: "''close'' \<in> set required \<and> ''close'' \<notin> set (columns no_close_frame)"
    by (simp add: required_def no_close_frame_def)
  have n: "data (init_engine None) = None" by (simp add: init_engine_def)
  have c: "set required \<subseteq> set (columns ohlcv_frame)"
    by (simp add: required_def ohlcv_frame_def)
  note inst1 = load_data_checks_six_columns[of "''close''" no_close_frame "init_engine None"]
  note inst2 = load_data_checks_six_columns[of "''close''" ohlcv_frame "init_engine None"]
  from inst1[THEN conjunct1, rule_format, OF m]
  have a: "load_data (init_engine None) no_close_frame
       = Inl (ValueError (''Missing required columns: '' @ repr_list [''close'']))"
    by (simp add: load_data_def required_def no_close_frame_def Let_def)
  note b = inst1[THEN conjunct2, THEN conjunct2, THEN conjunct2, THEN conjunct2,
      rule_format, OF n]
  from inst2[THEN conjunct2, THEN conjunct1, rule_format, OF c]
  have d: "load_data (init_engine None) ohlcv_frame
       = Inr ((init_engine None)\<lparr>data := Some (rows ohlcv_frame)\<rparr>)"
    by (simp add: ohlcv_frame_def)
  from m a n b c d show ?thesis by (intro conjI) simp_all
qed

theorem symbol_column_counterexample:
  "''symbol'' \<notin> set (columns ohlcv_frame)
   \<and> load_data (init_engine None) ohlcv_frame
       = Inr ((init_engine None)\<lparr>data := Some (rows ohlcv_frame)\<rparr>)"
  by (simp add: load_data_def required_def ohlcv_frame_def Let_def)

section \<open>The Sharpe ratio\<close>

lemma swing_run:
  "run_bars buy_once \<lparr>config = small_account, data = Some swing_bars, state = reset small_account\<rparr>
     0 swing_bars
   = Inr \<lparr>config = small_account, data = Some swing_bars, state = held\<rparr>"
  by (simp add: buy_once_def small_account_def swing_bars_def loop_defs engine_defs
      scenario_defs held_def aapl_def)

lemma swing_returns: "returns_of [100, 200, 100] = [1, - (1 / 2)]"
  by (simp add: returns_of_def)

lemma swing_std: "np_std [1, - (1 / 2)] = 3 / 4"
proof -
  have "np_std [1, - (1 / 2)] = sqrt ((3 / 4)\<^sup>2)"
    by (simp add: np_std_def np_mean_def power2_eq_square)
  then show ?thesis by simp
qed


lemma np_mean_squares_nonneg: "0 \<le> np_mean (map (\<lambda>x. \<bar>x - m\<bar> ^ 2) xs)"
  by (auto simp: np_mean_def intro!: divide_nonneg_nonneg sum_list_nonneg)

lemma np_std_nonneg: "0 \<le> np_std xs"
  unfolding np_std_def by (rule real_sqrt_ge_zero) (rule np_mean_squares_nonneg)

text \<open>The sibling computation in metrics.py does what the claim says.\<close>

lemma from_equity_curve_sharpe_ratio:
  assumes "2 \<le> length eq" "0 < periods_per_year"
  shows "metrics_volatility eq periods_per_year
           = Inr (np_std (returns_of eq) * sqrt (real_of_int periods_per_year))
       \<and> metrics_sharpe_ratio eq risk_free_rate periods_per_year
           = Inr (if np_std (returns_of eq) * sqrt (real_of_int periods_per_year) = 0 then 0
                  else np_mean (map (\<lambda>r. r - risk_free_rate / real_of_int periods_per_year)
                                 (returns_of eq))
                       * real_of_int periods_per_year
                       / (np_std (returns_of eq) * sqrt (real_of_int periods_per_year)))"
proof -
  from assms(2) have "0 \<le> sqrt (real_of_int periods_per_year)" by simp
  with np_std_nonneg[of "returns_of eq"]
  have "0 \<le> np_std (returns_of eq) * sqrt (real_of_int periods_per_year)" by simp
  then have "np_std (returns_of eq) * sqrt (real_of_int periods_per_year) > 0
      \<longleftrightarrow> np_std (returns_of eq) * sqrt (real_of_int periods_per_year) \<noteq> 0"
    by linarith
  with assms show ?thesis
    by (simp add: metrics_volatility_def metrics_sharpe_ratio_def Let_def)
qed

lemma swing_metrics:
  "calculate_metrics small_account [100, 200, 100] [] =
     Some \<lparr>total_return = 0, annualized_return = 0, volatility = 3 / 4 * sqrt 252,
           sharpe_ratio = 0, max_drawdown = 1 / 2, num_trades = 0, win_rate = 0, avg_win = 0,
           avg_loss = 0, profit_factor = Finite 0, final_equity = 100, initial_capital = 100\<rparr>"
  by (simp add: calculate_metrics_def Let_def swing_returns swing_std small_account_def
      scenario_defs)

lemma swing_sharpe_metrics_py:
  "metrics_sharpe_ratio [100, 200, 100] (2 / 100) 252
     = Inr ((1 / 4 - 2 / 100 / 252) * 252 / (3 / 4 * sqrt 252))"
  by (simp add: metrics_sharpe_ratio_def Let_def swing_returns swing_std np_mean_def)


lemma swing_full_run:
  "run (engine_of small_account swing_bars buy_once)
     = Inr (swing_result, (engine_of small_account swing_bars buy_once)\<lparr>state := held\<rparr>)"
proof -
  have "compile_results small_account held = swing_result"
    by (simp add: compile_results_def Let_def held_def swing_result_def swing_report_def
        swing_metrics)
  with swing_run show ?thesis
    by (simp add: run_def engine_of_def)
qed

text \<open>
  Claim C6, at an input where the code breaks it.  An account of 100 buys one share at
  100 and holds it while the next bars close at 200 and at 100, so the equity curve is
  100, 200, 100 and the returns are 1 and -1/2.  The metrics that \<open>run\<close> returns come
  from \<open>_calculate_metrics\<close>, whose Sharpe ratio is the annualized return divided by
  the volatility: here 0, with a volatility of 3/4 times the square root of 252.  The
  claim's formula, which \<open>BacktestMetrics.from_equity_curve\<close> computes, gives
  (1/4 - 0.02/252) * 252 divided by that volatility, which is not 0.
\<close>

theorem engine_sharpe_ratio_differs:
  "run (engine_of small_account swing_bars buy_once)
     = Inr (swing_result, (engine_of small_account swing_bars buy_once)\<lparr>state := held\<rparr>)
   \<and> map equity (BacktestResult.equity_curve swing_result) = [100, 200, 100]
   \<and> map_option Metrics.volatility (metrics swing_result) = Some (3 / 4 * sqrt 252)
   \<and> 3 / 4 * sqrt 252 \<noteq> 0
   \<and> map_option Metrics.sharpe_ratio (metrics swing_result) = Some 0
   \<and> metrics_volatility [100, 200, 100] 252 = Inr (3 / 4 * sqrt 252)
   \<and> metrics_sharpe_ratio [100, 200, 100] (2 / 100) 252
       = Inr ((1 / 4 - 2 / 100 / 252) * 252 / (3 / 4 * sqrt 252))
   \<and> (1 / 4 - 2 / 100 / 252) * 252 / (3 / 4 * sqrt 252) \<noteq> 0"
proof -
  have v: "metrics_volatility [100, 200, 100] 252 = Inr (3 / 4 * sqrt 252)"
    by (simp add: metrics_volatility_def swing_returns swing_std)
  have n: "(1 / 4 - 2 / 100 / 252) * 252 / (3 / 4 * sqrt 252) \<noteq> 0"
    by simp
  have r: "map equity (BacktestResult.equity_curve swing_result) = [100, 200, 100]"
    "map_option Metrics.volatility (metrics swing_result) = Some (3 / 4 * sqrt 252)"
    "map_option Metrics.sharpe_ratio (metrics swing_result) = Some 0"
    by (simp_all add: swing_result_def swing_report_def held_def)
  have z: "3 / 4 * sqrt 252 \<noteq> 0" by simp
  from swing_full_run r z v swing_sharpe_metrics_py n show ?thesis by (intro conjI)
qed

end
